theory Spec2Isabelle
  imports Complex_Main
begin

section \<open>Scene manager: data model\<close>

text \<open>
  A shallow embedding of \<^verbatim>\<open>Source/SceneManager.cpp\<close>. The C++ \<^verbatim>\<open>float\<close> is read as a
  real number throughout, so every statement below is about the exact arithmetic the
  code denotes, not about rounding. Undefined behaviour of the C++ (a call through a
  null pointer, an array access outside the array) is a value of type \<open>fault\<close>.
\<close>

datatype fault = NullPointerDereference | IndexOutOfBounds

datatype vec2 = Vec2 real real
datatype vec3 = Vec3 real real real
datatype vec4 = Vec4 real real real real

text \<open>A \<^verbatim>\<open>glm::mat4\<close> is stored by columns: \<open>Mat4 c0 c1 c2 c3\<close>, \<^verbatim>\<open>m[i]\<close> is column \<open>i\<close>.\<close>

datatype mat4 = Mat4 vec4 vec4 vec4 vec4

text \<open>
  The value handed to one of the shader program's named-uniform setters.
  \<open>UIndeterminate\<close> is the value of a C++ object that was never initialised.
\<close>

datatype uniform =
    UInt int
  | UFloat real
  | UVec2 vec2
  | UVec3 vec3
  | UVec4 vec4
  | UMat4 mat4
  | USampler2D int
  | UIndeterminate

text \<open>
  Modelled from the spec: the shader program abstraction (class \<^verbatim>\<open>ShaderManager\<close>) is
  not part of the source file; the spec describes it as named-uniform setters addressed
  by string key. It is modelled as the record of setter calls made on it, newest first;
  the current value of a uniform is the value of the newest call for its name.
\<close>

type_synonym ShaderManager = "(string \<times> uniform) list"

definition uniform_value :: "ShaderManager \<Rightarrow> string \<Rightarrow> uniform option" where
  "uniform_value sh name = map_of sh name"

text \<open>
  Modelled from the spec: the structs \<^verbatim>\<open>TEXTURE_INFO\<close> (its fields \<^verbatim>\<open>tag\<close> and \<^verbatim>\<open>ID\<close>
  are \<open>tex_tag\<close> and \<open>tex_ID\<close> here) and \<^verbatim>\<open>OBJECT_MATERIAL\<close> are declared in the header,
  which is not part of the source file; the fields are the ones the source file reads
  and writes.
\<close>

record TEXTURE_INFO =
  tex_tag :: string
  tex_ID :: nat

record OBJECT_MATERIAL =
  diffuseColor :: vec3
  specularColor :: vec3
  shininess :: real
  tag :: string

text \<open>The image decoder's answer for a file that decodes (the pixel bytes are left out).\<close>

record image =
  width :: int
  height :: int
  colorChannels :: int

text \<open>
  The part of the OpenGL context the texture registry acts on: the active texture unit
  and, for each unit, the name of the 2D texture bound to it (0 is no texture).
\<close>

record GLState =
  activeTexture :: nat
  boundTexture2D :: "nat \<Rightarrow> nat"

datatype mesh = PlaneMesh | BoxMesh | CylinderMesh | TaperedCylinderMesh | TorusMesh

text \<open>
  The scene manager's members, the OpenGL context, and what the mesh backend has drawn:
  each draw call is recorded, newest first, with the mesh and the value the \<^verbatim>\<open>model\<close>
  uniform had when it was issued (\<open>None\<close> when no shader is bound or none was written).
\<close>

record SceneManager =
  m_pShaderManager :: "ShaderManager option"
  m_textureIDs :: "TEXTURE_INFO list"
  m_loadedTextures :: int
  m_objectMaterials :: "OBJECT_MATERIAL list"
  gl :: GLState
  drawn :: "(mesh \<times> uniform option) list"

text \<open>
  Modelled from the spec: the capacity of the array \<^verbatim>\<open>m_textureIDs\<close> is fixed by the
  header, which is not part of the source file; the source's comments and the spec give
  16 slots.
\<close>

definition texture_capacity :: nat where
  "texture_capacity = 16"

definition g_ModelName :: string where
  "g_ModelName = ''model''"

definition g_ColorValueName :: string where
  "g_ColorValueName = ''objectColor''"

definition g_TextureValueName :: string where
  "g_TextureValueName = ''objectTexture''"

definition g_UseTextureName :: string where
  "g_UseTextureName = ''bUseTexture''"

section \<open>Calls on the shader program\<close>

text \<open>
  \<^verbatim>\<open>m_pShaderManager->set...Value(name, v)\<close>: a call through the pointer. Through a null
  pointer the call is undefined behaviour.
\<close>

definition setValue :: "string \<Rightarrow> uniform \<Rightarrow> SceneManager \<Rightarrow> fault + SceneManager" where
  "setValue name v st =
     (case m_pShaderManager st of
        None \<Rightarrow> Inl NullPointerDereference
      | Some sh \<Rightarrow> Inr (st\<lparr>m_pShaderManager := Some ((name, v) # sh)\<rparr>))"

text \<open>Statements in sequence; a fault ends the run.\<close>

fun steps :: "('s \<Rightarrow> fault + 's) list \<Rightarrow> 's \<Rightarrow> fault + 's" where
  "steps [] st = Inr st"
| "steps (f # fs) st = (case f st of Inl e \<Rightarrow> Inl e | Inr st' \<Rightarrow> steps fs st')"

section \<open>Material registry\<close>

text \<open>
  The \<^verbatim>\<open>while\<close> loop of \<^verbatim>\<open>FindMaterial\<close>. The out-parameter \<open>material\<close> is \<open>None\<close> while
  the caller's object is uninitialised; a match assigns its three numeric fields and
  leaves its tag as it was (the empty string of a default-constructed object).
\<close>

function FindMaterial_loop ::
  "OBJECT_MATERIAL list \<Rightarrow> string \<Rightarrow> nat \<Rightarrow> bool \<Rightarrow> OBJECT_MATERIAL option
     \<Rightarrow> bool \<times> OBJECT_MATERIAL option" where
  "FindMaterial_loop ms t index bFound material =
     (if index < length ms \<and> bFound = False then
        (if tag (ms ! index) = t then
           FindMaterial_loop ms t index True
             (Some \<lparr>diffuseColor = diffuseColor (ms ! index),
                    specularColor = specularColor (ms ! index),
                    shininess = shininess (ms ! index),
                    tag = (case material of None \<Rightarrow> [] | Some m \<Rightarrow> tag m)\<rparr>)
         else FindMaterial_loop ms t (index + 1) bFound material)
      else (bFound, material))"
  by pat_completeness auto
termination
  by (relation "measure (\<lambda>(ms, t, index, bFound, material).
        2 * (length ms - index) + (if bFound then 0 else 1))") auto

text \<open>
  \<^verbatim>\<open>FindMaterial(tag, material)\<close>: the result is the returned \<^verbatim>\<open>bool\<close> and the
  out-parameter after the call. The flag \<^verbatim>\<open>bFound\<close> of the loop is not what the function
  returns: after the loop it returns \<^verbatim>\<open>true\<close>.
\<close>

definition FindMaterial ::
  "string \<Rightarrow> OBJECT_MATERIAL option \<Rightarrow> SceneManager \<Rightarrow> bool \<times> OBJECT_MATERIAL option" where
  "FindMaterial t material st =
     (if length (m_objectMaterials st) = 0 then (False, material)
      else (True, snd (FindMaterial_loop (m_objectMaterials st) t 0 False material)))"

text \<open>What the loop's own flag says: some entry carries the tag.\<close>

definition material_found :: "string \<Rightarrow> SceneManager \<Rightarrow> bool" where
  "material_found t st = fst (FindMaterial_loop (m_objectMaterials st) t 0 False None)"

text \<open>\<^verbatim>\<open>DefineObjectMaterials\<close>: five \<^verbatim>\<open>push_back\<close> calls.\<close>

definition DefineObjectMaterials :: "SceneManager \<Rightarrow> SceneManager" where
  "DefineObjectMaterials st =
     (let glassMaterial = \<lparr>diffuseColor = Vec3 0.2 0.2 0.2, specularColor = Vec3 1.0 1.0 1.0,
                           shininess = 95.0, tag = ''glass''\<rparr>;
          st = st\<lparr>m_objectMaterials := m_objectMaterials st @ [glassMaterial]\<rparr>;
          plasticMaterial = \<lparr>diffuseColor = Vec3 0.1 0.1 0.1, specularColor = Vec3 0.1 0.1 0.1,
                             shininess = 0.01, tag = ''plastic''\<rparr>;
          st = st\<lparr>m_objectMaterials := m_objectMaterials st @ [plasticMaterial]\<rparr>;
          woodMaterial = \<lparr>diffuseColor = Vec3 0.3 0.3 0.3, specularColor = Vec3 0.7 0.7 0.7,
                          shininess = 80.0, tag = ''wood''\<rparr>;
          st = st\<lparr>m_objectMaterials := m_objectMaterials st @ [woodMaterial]\<rparr>;
          wallMaterial = \<lparr>diffuseColor = Vec3 0.3 0.3 0.3, specularColor = Vec3 0.6 0.6 0.6,
                          shininess = 75.0, tag = ''wall''\<rparr>;
          st = st\<lparr>m_objectMaterials := m_objectMaterials st @ [wallMaterial]\<rparr>;
          shelfMaterial = \<lparr>diffuseColor = Vec3 0.6 0.6 0.6, specularColor = Vec3 0.2 0.2 0.2,
                           shininess = 0.2, tag = ''shelf''\<rparr>;
          st = st\<lparr>m_objectMaterials := m_objectMaterials st @ [shelfMaterial]\<rparr>
      in st)"

text \<open>
  Modelled from the spec: the constructor in the source file assigns the shader pointer
  and the mesh object only; the initial values of the other members belong to the
  header, which is not part of the source file. The registries start empty: the shader
  pointer it was given, no texture loaded, no material defined, nothing drawn.
\<close>

definition new_SceneManager :: "ShaderManager option \<Rightarrow> SceneManager" where
  "new_SceneManager pShaderManager =
     \<lparr>m_pShaderManager = pShaderManager,
      m_textureIDs = replicate texture_capacity \<lparr>tex_tag = [], tex_ID = 0\<rparr>,
      m_loadedTextures = 0,
      m_objectMaterials = [],
      gl = \<lparr>activeTexture = 0, boundTexture2D = (\<lambda>_. 0)\<rparr>,
      drawn = []\<rparr>"

section \<open>Texture registry\<close>

definition glActiveTexture :: "nat \<Rightarrow> GLState \<Rightarrow> GLState" where
  \<comment> \<open>\<^verbatim>\<open>glActiveTexture(GL_TEXTURE0 + i)\<close>\<close>
  "glActiveTexture i g = g\<lparr>activeTexture := i\<rparr>"

definition glBindTexture :: "nat \<Rightarrow> GLState \<Rightarrow> GLState" where
  \<comment> \<open>\<^verbatim>\<open>glBindTexture(GL_TEXTURE_2D, t)\<close>: binds on the active unit\<close>
  "glBindTexture t g = g\<lparr>boundTexture2D := (boundTexture2D g)(activeTexture g := t)\<rparr>"

text \<open>
  \<^verbatim>\<open>CreateGLTexture(filename, tag)\<close>. The two answers the function gets from outside are
  arguments of the model: \<open>img\<close> is what the decoder returns for the file (\<open>None\<close> for
  the null pointer), \<open>newID\<close> the texture name \<^verbatim>\<open>glGenTextures\<close> hands out. The upload
  of the pixels does not touch the registry and is left out. The result is the returned
  \<^verbatim>\<open>bool\<close> and the state after the call.
\<close>

definition CreateGLTexture ::
  "image option \<Rightarrow> nat \<Rightarrow> string \<Rightarrow> SceneManager \<Rightarrow> fault + (bool \<times> SceneManager)" where
  "CreateGLTexture img newID t st =
     (case img of
        Some i \<Rightarrow>
          (let textureID = newID;
               st = st\<lparr>gl := glBindTexture textureID (gl st)\<rparr>
           in if colorChannels i = 3 \<or> colorChannels i = 4 then
                (let st = st\<lparr>gl := glBindTexture 0 (gl st)\<rparr>
                 in if 0 \<le> m_loadedTextures st
                       \<and> nat (m_loadedTextures st) < length (m_textureIDs st) then
                      Inr (True,
                        st\<lparr>m_textureIDs := (m_textureIDs st)[nat (m_loadedTextures st) :=
                               \<lparr>tex_tag = t, tex_ID = textureID\<rparr>],
                            m_loadedTextures := m_loadedTextures st + 1\<rparr>)
                    else Inl IndexOutOfBounds)
              else Inr (False, st))
      | None \<Rightarrow> Inr (False, st))"

text \<open>
  A run of \<^verbatim>\<open>CreateGLTexture\<close> calls, as \<^verbatim>\<open>LoadSceneTextures\<close> makes them: each request is
  the decoder's answer, the texture name and the tag of one call; the results are the
  returned \<^verbatim>\<open>bool\<close>s in call order.
\<close>

fun CreateGLTextures ::
  "(image option \<times> nat \<times> string) list \<Rightarrow> SceneManager \<Rightarrow> fault + (bool list \<times> SceneManager)" where
  "CreateGLTextures [] st = Inr ([], st)"
| "CreateGLTextures ((img, newID, t) # rs) st =
     (case CreateGLTexture img newID t st of
        Inl e \<Rightarrow> Inl e
      | Inr (b, st') \<Rightarrow>
          (case CreateGLTextures rs st' of
             Inl e \<Rightarrow> Inl e
           | Inr (bs, st'') \<Rightarrow> Inr (b # bs, st'')))"

text \<open>The requests of a run whose call returned \<^verbatim>\<open>true\<close>, in call order.\<close>

fun successful :: "'a list \<Rightarrow> bool list \<Rightarrow> 'a list" where
  "successful (r # rs) (b # bs) = (if b then r # successful rs bs else successful rs bs)"
| "successful _ _ = []"

text \<open>
  A request whose file decodes with three or four channels, and the registry entry a
  request leaves when its call returns \<^verbatim>\<open>true\<close>.
\<close>

definition supported :: "image option \<times> nat \<times> string \<Rightarrow> bool" where
  "supported r =
     (case fst r of None \<Rightarrow> False | Some i \<Rightarrow> colorChannels i = 3 \<or> colorChannels i = 4)"

definition registered :: "image option \<times> nat \<times> string \<Rightarrow> TEXTURE_INFO" where
  "registered r = \<lparr>tex_tag = snd (snd r), tex_ID = fst (snd r)\<rparr>"

text \<open>The \<^verbatim>\<open>for\<close> loop of \<^verbatim>\<open>BindGLTextures\<close>, from index \<open>i\<close> on.\<close>

function BindGLTextures_loop :: "nat \<Rightarrow> SceneManager \<Rightarrow> fault + SceneManager" where
  "BindGLTextures_loop i st =
     (if int i < m_loadedTextures st then
        (if i < length (m_textureIDs st) then
           BindGLTextures_loop (i + 1)
             (st\<lparr>gl := glBindTexture (tex_ID (m_textureIDs st ! i))
                          (glActiveTexture i (gl st))\<rparr>)
         else Inl IndexOutOfBounds)
      else Inr st)"
  by pat_completeness auto
termination
  by (relation "measure (\<lambda>(i, st). nat (m_loadedTextures st - int i))") auto

definition BindGLTextures :: "SceneManager \<Rightarrow> fault + SceneManager" where
  "BindGLTextures st = BindGLTextures_loop 0 st"

text \<open>The \<^verbatim>\<open>while\<close> loop of \<^verbatim>\<open>FindTextureSlot\<close>, with its three local variables.\<close>

function FindTextureSlot_loop ::
  "SceneManager \<Rightarrow> string \<Rightarrow> nat \<Rightarrow> bool \<Rightarrow> int \<Rightarrow> fault + int" where
  "FindTextureSlot_loop st t index bFound textureSlot =
     (if int index < m_loadedTextures st \<and> bFound = False then
        (if index < length (m_textureIDs st) then
           (if tex_tag (m_textureIDs st ! index) = t
            then FindTextureSlot_loop st t index True (int index)
            else FindTextureSlot_loop st t (index + 1) bFound textureSlot)
         else Inl IndexOutOfBounds)
      else Inr textureSlot)"
  by pat_completeness auto
termination
  by (relation "measure (\<lambda>(st, t, index, bFound, textureSlot).
        2 * nat (m_loadedTextures st - int index) + (if bFound then 0 else 1))") auto

definition FindTextureSlot :: "string \<Rightarrow> SceneManager \<Rightarrow> fault + int" where
  "FindTextureSlot t st = FindTextureSlot_loop st t 0 False (- 1)"

section \<open>The GLM functions the transform composer calls\<close>

text \<open>
  Modelled from the spec: GLM is a library outside the source file. Its functions are
  written here as the library defines them on column-major matrices (\<^verbatim>\<open>glm::scale\<close>,
  \<^verbatim>\<open>glm::rotate\<close> and \<^verbatim>\<open>glm::translate\<close> of \<^verbatim>\<open>glm/gtx/transform.hpp\<close> apply the
  three-argument forms to the identity matrix), which is the right-handed convention the
  spec names. \<^verbatim>\<open>glm::radians\<close> multiplies by \<open>pi / 180\<close>.
\<close>

fun vec4_add :: "vec4 \<Rightarrow> vec4 \<Rightarrow> vec4" where
  "vec4_add (Vec4 a b c d) (Vec4 a' b' c' d') = Vec4 (a + a') (b + b') (c + c') (d + d')"

fun vec4_times :: "vec4 \<Rightarrow> real \<Rightarrow> vec4" where
  "vec4_times (Vec4 a b c d) k = Vec4 (a * k) (b * k) (c * k) (d * k)"

fun vec3_times :: "vec3 \<Rightarrow> real \<Rightarrow> vec3" where
  "vec3_times (Vec3 a b c) k = Vec3 (a * k) (b * k) (c * k)"

fun vec3_dot :: "vec3 \<Rightarrow> vec3 \<Rightarrow> real" where
  "vec3_dot (Vec3 a b c) (Vec3 a' b' c') = a * a' + b * b' + c * c'"

fun vx :: "vec3 \<Rightarrow> real" where "vx (Vec3 a b c) = a"
fun vy :: "vec3 \<Rightarrow> real" where "vy (Vec3 a b c) = b"
fun vz :: "vec3 \<Rightarrow> real" where "vz (Vec3 a b c) = c"

definition glm_normalize :: "vec3 \<Rightarrow> vec3" where
  "glm_normalize v = vec3_times v (1 / sqrt (vec3_dot v v))"

definition glm_radians :: "real \<Rightarrow> real" where
  "glm_radians degrees = degrees * (pi / 180)"

definition mat4_identity :: mat4 where
  "mat4_identity = Mat4 (Vec4 1 0 0 0) (Vec4 0 1 0 0) (Vec4 0 0 1 0) (Vec4 0 0 0 1)"

fun mat4_times_vec4 :: "mat4 \<Rightarrow> vec4 \<Rightarrow> vec4" where
  "mat4_times_vec4 (Mat4 m0 m1 m2 m3) (Vec4 x y z w) =
     vec4_add (vec4_add (vec4_add (vec4_times m0 x) (vec4_times m1 y)) (vec4_times m2 z))
       (vec4_times m3 w)"

fun mat4_times :: "mat4 \<Rightarrow> mat4 \<Rightarrow> mat4" where
  "mat4_times A (Mat4 b0 b1 b2 b3) =
     Mat4 (mat4_times_vec4 A b0) (mat4_times_vec4 A b1) (mat4_times_vec4 A b2)
       (mat4_times_vec4 A b3)"

fun glm_scale_m :: "mat4 \<Rightarrow> vec3 \<Rightarrow> mat4" where
  "glm_scale_m (Mat4 m0 m1 m2 m3) (Vec3 x y z) =
     Mat4 (vec4_times m0 x) (vec4_times m1 y) (vec4_times m2 z) m3"

fun glm_translate_m :: "mat4 \<Rightarrow> vec3 \<Rightarrow> mat4" where
  "glm_translate_m (Mat4 m0 m1 m2 m3) (Vec3 x y z) =
     Mat4 m0 m1 m2
       (vec4_add (vec4_add (vec4_add (vec4_times m0 x) (vec4_times m1 y)) (vec4_times m2 z)) m3)"

fun glm_rotate_m :: "mat4 \<Rightarrow> real \<Rightarrow> vec3 \<Rightarrow> mat4" where
  "glm_rotate_m (Mat4 m0 m1 m2 m3) angle v =
     (let c = cos angle;
          s = sin angle;
          axis = glm_normalize v;
          temp = vec3_times axis (1 - c);
          r00 = c + vx temp * vx axis;
          r01 = vx temp * vy axis + s * vz axis;
          r02 = vx temp * vz axis - s * vy axis;
          r10 = vy temp * vx axis - s * vz axis;
          r11 = c + vy temp * vy axis;
          r12 = vy temp * vz axis + s * vx axis;
          r20 = vz temp * vx axis + s * vy axis;
          r21 = vz temp * vy axis - s * vx axis;
          r22 = c + vz temp * vz axis
      in Mat4
           (vec4_add (vec4_add (vec4_times m0 r00) (vec4_times m1 r01)) (vec4_times m2 r02))
           (vec4_add (vec4_add (vec4_times m0 r10) (vec4_times m1 r11)) (vec4_times m2 r12))
           (vec4_add (vec4_add (vec4_times m0 r20) (vec4_times m1 r21)) (vec4_times m2 r22))
           m3)"

definition glm_scale :: "vec3 \<Rightarrow> mat4" where
  "glm_scale v = glm_scale_m mat4_identity v"

definition glm_rotate :: "real \<Rightarrow> vec3 \<Rightarrow> mat4" where
  "glm_rotate angle v = glm_rotate_m mat4_identity angle v"

definition glm_translate :: "vec3 \<Rightarrow> mat4" where
  "glm_translate v = glm_translate_m mat4_identity v"

section \<open>Shader state broadcaster\<close>

text \<open>The matrix \<^verbatim>\<open>SetTransformations\<close> computes in its local \<^verbatim>\<open>modelView\<close>.\<close>

definition modelView ::
  "vec3 \<Rightarrow> real \<Rightarrow> real \<Rightarrow> real \<Rightarrow> vec3 \<Rightarrow> mat4" where
  "modelView scaleXYZ XrotationDegrees YrotationDegrees ZrotationDegrees positionXYZ =
     (let scale = glm_scale scaleXYZ;
          rotationX = glm_rotate (glm_radians XrotationDegrees) (Vec3 1 0 0);
          rotationY = glm_rotate (glm_radians YrotationDegrees) (Vec3 0 1 0);
          rotationZ = glm_rotate (glm_radians ZrotationDegrees) (Vec3 0 0 1);
          translation = glm_translate positionXYZ
      in mat4_times (mat4_times (mat4_times (mat4_times translation rotationZ) rotationY)
           rotationX) scale)"

definition SetTransformations ::
  "vec3 \<Rightarrow> real \<Rightarrow> real \<Rightarrow> real \<Rightarrow> vec3 \<Rightarrow> SceneManager \<Rightarrow> fault + SceneManager" where
  "SetTransformations scaleXYZ XrotationDegrees YrotationDegrees ZrotationDegrees positionXYZ st =
     (if m_pShaderManager st \<noteq> None then
        setValue g_ModelName
          (UMat4 (modelView scaleXYZ XrotationDegrees YrotationDegrees ZrotationDegrees
             positionXYZ)) st
      else Inr st)"

definition SetShaderColor ::
  "real \<Rightarrow> real \<Rightarrow> real \<Rightarrow> real \<Rightarrow> SceneManager \<Rightarrow> fault + SceneManager" where
  "SetShaderColor redColorValue greenColorValue blueColorValue alphaValue st =
     (let currentColor = Vec4 redColorValue greenColorValue blueColorValue alphaValue
      in if m_pShaderManager st \<noteq> None then
           steps [setValue g_UseTextureName (UInt 0),
                  setValue g_ColorValueName (UVec4 currentColor)] st
         else Inr st)"

definition SetShaderTexture :: "string \<Rightarrow> SceneManager \<Rightarrow> fault + SceneManager" where
  "SetShaderTexture textureTag st =
     (if m_pShaderManager st \<noteq> None then
        (case setValue g_UseTextureName (UInt 1) st of
           Inl e \<Rightarrow> Inl e
         | Inr st \<Rightarrow>
             (case FindTextureSlot textureTag st of
                Inl e \<Rightarrow> Inl e
              | Inr textureID \<Rightarrow> setValue g_TextureValueName (USampler2D textureID) st))
      else Inr st)"

definition SetTextureUVScale :: "real \<Rightarrow> real \<Rightarrow> SceneManager \<Rightarrow> fault + SceneManager" where
  "SetTextureUVScale u v st =
     (if m_pShaderManager st \<noteq> None then setValue ''UVscale'' (UVec2 (Vec2 u v)) st
      else Inr st)"

text \<open>
  \<^verbatim>\<open>SetShaderMaterial\<close>. Its local \<^verbatim>\<open>material\<close> is declared without an initialiser, so
  the fields \<^verbatim>\<open>FindMaterial\<close> did not assign are indeterminate when they are passed on.
  There is no test of \<^verbatim>\<open>m_pShaderManager\<close> in this function.
\<close>

definition SetShaderMaterial :: "string \<Rightarrow> SceneManager \<Rightarrow> fault + SceneManager" where
  "SetShaderMaterial materialTag st =
     (if length (m_objectMaterials st) > 0 then
        (let (bReturn, material) = FindMaterial materialTag None st
         in if bReturn = True then
              steps
                [setValue ''material.diffuseColor''
                   (case material of None \<Rightarrow> UIndeterminate | Some m \<Rightarrow> UVec3 (diffuseColor m)),
                 setValue ''material.specularColor''
                   (case material of None \<Rightarrow> UIndeterminate | Some m \<Rightarrow> UVec3 (specularColor m)),
                 setValue ''material.shininess''
                   (case material of None \<Rightarrow> UIndeterminate | Some m \<Rightarrow> UFloat (shininess m))]
                st
            else Inr st)
      else Inr st)"

section \<open>Scene builder\<close>

text \<open>
  Modelled from the spec: the mesh backend (class \<^verbatim>\<open>ShapeMeshes\<close>) is not part of the
  source file; a draw call uses whatever transform is currently active in the shader.
\<close>

definition current_model :: "SceneManager \<Rightarrow> uniform option" where
  "current_model st =
     (case m_pShaderManager st of None \<Rightarrow> None | Some sh \<Rightarrow> uniform_value sh g_ModelName)"

definition DrawMesh :: "mesh \<Rightarrow> SceneManager \<Rightarrow> fault + SceneManager" where
  "DrawMesh m st = Inr (st\<lparr>drawn := (m, current_model st) # drawn st\<rparr>)"

definition CreateBottle1 ::
  "real \<Rightarrow> real \<Rightarrow> real \<Rightarrow> real \<Rightarrow> string \<Rightarrow> SceneManager \<Rightarrow> fault + SceneManager" where
  "CreateBottle1 hs1x hs1y hs1z hs1 tex =
     steps
       [\<comment> \<open>cylinder inside to represent sauces\<close>
        SetTransformations (Vec3 (hs1 * 0.7) (hs1 * 2.8) (hs1 * 0.7)) 0 0 0
          (Vec3 (0 + hs1x) (hs1 * (0.2 + hs1y)) (0 + hs1z)),
        SetTextureUVScale 50 50,
        SetShaderTexture tex,
        DrawMesh CylinderMesh,
        \<comment> \<open>cylinder base\<close>
        SetTransformations (Vec3 (hs1 * 0.8) (hs1 * 3.0) (hs1 * 0.8)) 0 0 0
          (Vec3 (0 + hs1x) (hs1 * (0 + hs1y)) (0 + hs1z)),
        SetShaderColor 0.7 0.7 0.8 0.3,
        SetShaderMaterial ''glass'',
        DrawMesh CylinderMesh,
        \<comment> \<open>tapered cylinder for neck of bottle\<close>
        SetTransformations (Vec3 (hs1 * 0.8) (hs1 * 1.0) (hs1 * 0.8)) 0 0 0
          (Vec3 (0 + hs1x) (hs1 * (3.0 + hs1y)) (0 + hs1z)),
        SetShaderColor 0.7 0.7 0.8 0.3,
        SetShaderMaterial ''glass'',
        DrawMesh TaperedCylinderMesh,
        \<comment> \<open>cylinder for lid\<close>
        SetTransformations (Vec3 (hs1 * 0.5) (hs1 * 0.7) (hs1 * 0.5)) 0 0 0
          (Vec3 (0 + hs1x) (hs1 * (4.8 + hs1y)) (0 + hs1z)),
        SetTextureUVScale 1 1,
        SetShaderTexture ''lid'',
        SetShaderMaterial ''plastic'',
        DrawMesh CylinderMesh,
        \<comment> \<open>additional cylinder for non-tapered part of neck\<close>
        SetTransformations (Vec3 (hs1 * 0.4) (hs1 * 1.0) (hs1 * 0.4)) 0 0 0
          (Vec3 (0 + hs1x) (hs1 * (4.0 + hs1y)) (0 + hs1z)),
        SetShaderColor 0.7 0.7 0.8 0.3,
        SetShaderMaterial ''glass'',
        DrawMesh CylinderMesh]"

text \<open>
  The scale vector and the position of a drawn primitive, read off the model matrix it
  was drawn with (its diagonal and its fourth column; the bottle's primitives are not
  rotated).
\<close>

fun primitive_of :: "mesh \<times> uniform option \<Rightarrow> (vec3 \<times> vec3) option" where
  "primitive_of (m, Some (UMat4 (Mat4 (Vec4 a00 a01 a02 a03) (Vec4 a10 a11 a12 a13)
      (Vec4 a20 a21 a22 a23) (Vec4 a30 a31 a32 a33)))) =
     Some (Vec3 a00 a11 a22, Vec3 a30 a31 a32)"
| "primitive_of _ = None"

text \<open>The primitives drawn between two states, in drawing order.\<close>

definition new_primitives :: "SceneManager \<Rightarrow> SceneManager \<Rightarrow> (vec3 \<times> vec3) option list" where
  "new_primitives st st' =
     map primitive_of (rev (take (length (drawn st') - length (drawn st)) (drawn st')))"



section \<open>The transform as the spec words it\<close>

text \<open>
  The five matrices of the spec, written out entry by entry and by rows, and the five
  maps on points they stand for.
\<close>

definition mat4_of_rows :: "vec4 \<Rightarrow> vec4 \<Rightarrow> vec4 \<Rightarrow> vec4 \<Rightarrow> mat4" where
  "mat4_of_rows r0 r1 r2 r3 =
     (case (r0, r1, r2, r3) of
        (Vec4 a00 a01 a02 a03, Vec4 a10 a11 a12 a13, Vec4 a20 a21 a22 a23, Vec4 a30 a31 a32 a33) \<Rightarrow>
          Mat4 (Vec4 a00 a10 a20 a30) (Vec4 a01 a11 a21 a31) (Vec4 a02 a12 a22 a32)
            (Vec4 a03 a13 a23 a33))"

definition spec_Scale :: "vec3 \<Rightarrow> mat4" where
  "spec_Scale s =
     mat4_of_rows (Vec4 (vx s) 0 0 0) (Vec4 0 (vy s) 0 0) (Vec4 0 0 (vz s) 0) (Vec4 0 0 0 1)"

definition spec_RotateX :: "real \<Rightarrow> mat4" where
  "spec_RotateX a =
     mat4_of_rows (Vec4 1 0 0 0) (Vec4 0 (cos a) (- sin a) 0) (Vec4 0 (sin a) (cos a) 0)
       (Vec4 0 0 0 1)"

definition spec_RotateY :: "real \<Rightarrow> mat4" where
  "spec_RotateY a =
     mat4_of_rows (Vec4 (cos a) 0 (sin a) 0) (Vec4 0 1 0 0) (Vec4 (- sin a) 0 (cos a) 0)
       (Vec4 0 0 0 1)"

definition spec_RotateZ :: "real \<Rightarrow> mat4" where
  "spec_RotateZ a =
     mat4_of_rows (Vec4 (cos a) (- sin a) 0 0) (Vec4 (sin a) (cos a) 0 0) (Vec4 0 0 1 0)
       (Vec4 0 0 0 1)"

definition spec_Translate :: "vec3 \<Rightarrow> mat4" where
  "spec_Translate t =
     mat4_of_rows (Vec4 1 0 0 (vx t)) (Vec4 0 1 0 (vy t)) (Vec4 0 0 1 (vz t)) (Vec4 0 0 0 1)"

definition spec_Compose :: "vec3 \<Rightarrow> real \<Rightarrow> real \<Rightarrow> real \<Rightarrow> vec3 \<Rightarrow> mat4" where
  "spec_Compose s rx ry rz t =
     mat4_times (mat4_times (mat4_times (mat4_times (spec_Translate t)
       (spec_RotateZ (rz * pi / 180))) (spec_RotateY (ry * pi / 180)))
       (spec_RotateX (rx * pi / 180))) (spec_Scale s)"

definition scale_point :: "vec3 \<Rightarrow> vec3 \<Rightarrow> vec3" where
  "scale_point s p = Vec3 (vx s * vx p) (vy s * vy p) (vz s * vz p)"

definition rotate_x_point :: "real \<Rightarrow> vec3 \<Rightarrow> vec3" where
  "rotate_x_point a p = Vec3 (vx p) (cos a * vy p - sin a * vz p) (sin a * vy p + cos a * vz p)"

definition rotate_y_point :: "real \<Rightarrow> vec3 \<Rightarrow> vec3" where
  "rotate_y_point a p = Vec3 (cos a * vx p + sin a * vz p) (vy p) (cos a * vz p - sin a * vx p)"

definition rotate_z_point :: "real \<Rightarrow> vec3 \<Rightarrow> vec3" where
  "rotate_z_point a p = Vec3 (cos a * vx p - sin a * vy p) (sin a * vx p + cos a * vy p) (vz p)"

definition translate_point :: "vec3 \<Rightarrow> vec3 \<Rightarrow> vec3" where
  "translate_point t p = Vec3 (vx t + vx p) (vy t + vy p) (vz t + vz p)"

text \<open>A matrix applied to a point (\<open>w = 1\<close>) and to a direction (\<open>w = 0\<close>).\<close>

fun vec4_xyz :: "vec4 \<Rightarrow> vec3" where
  "vec4_xyz (Vec4 x y z w) = Vec3 x y z"

definition transform_point :: "mat4 \<Rightarrow> vec3 \<Rightarrow> vec3" where
  "transform_point M p = vec4_xyz (mat4_times_vec4 M (Vec4 (vx p) (vy p) (vz p) 1))"

definition transform_direction :: "mat4 \<Rightarrow> vec3 \<Rightarrow> vec3" where
  "transform_direction M p = vec4_xyz (mat4_times_vec4 M (Vec4 (vx p) (vy p) (vz p) 0))"

section \<open>Preconditions and an example scene\<close>

text \<open>
  A state in which the broadcaster cannot fault: a shader is bound and the texture count
  does not exceed the array.
\<close>

definition ready :: "SceneManager \<Rightarrow> bool" where
  "ready st =
     (m_pShaderManager st \<noteq> None \<and> nat (m_loadedTextures st) \<le> length (m_textureIDs st))"

text \<open>
  A statement that, run in a ready state, ends without fault in a ready state, and
  leaves the model uniform and the record of draw calls as they were.
\<close>

definition quiet :: "(SceneManager \<Rightarrow> fault + SceneManager) \<Rightarrow> bool" where
  "quiet f =
     (\<forall>st. ready st \<longrightarrow>
        (\<exists>st'. f st = Inr st' \<and> ready st' \<and> current_model st' = current_model st
           \<and> drawn st' = drawn st))"

text \<open>
  Three loads on a new scene manager with a shader bound: the second file does not
  decode. \<open>example_scene\<close> is the state they leave.
\<close>

definition example_requests :: "(image option \<times> nat \<times> string) list" where
  "example_requests =
     [(Some \<lparr>width = 512, height = 512, colorChannels = 3\<rparr>, 1, ''wood''),
      (None, 0, ''sauce1''),
      (Some \<lparr>width = 64, height = 64, colorChannels = 4\<rparr>, 2, ''lid'')]"

definition example_scene :: SceneManager where
  "example_scene =
     \<lparr>m_pShaderManager = Some [],
      m_textureIDs = [\<lparr>tex_tag = ''wood'', tex_ID = 1\<rparr>, \<lparr>tex_tag = ''lid'', tex_ID = 2\<rparr>]
         @ replicate 14 \<lparr>tex_tag = [], tex_ID = 0\<rparr>,
      m_loadedTextures = 2,
      m_objectMaterials = [],
      gl = \<lparr>activeTexture = 0, boundTexture2D = (\<lambda>_. 0)\<rparr>,
      drawn = []\<rparr>"

section \<open>Material lookup\<close>

lemma FindMaterial_empty:
  "m_objectMaterials st = [] \<Longrightarrow> FindMaterial t material st = (False, material)"
  by (simp add: FindMaterial_def)

lemma FindMaterial_loop_miss:
  "bFound = False \<Longrightarrow> \<forall>j. index \<le> j \<and> j < length ms \<longrightarrow> tag (ms ! j) \<noteq> t \<Longrightarrow>
   FindMaterial_loop ms t index bFound material = (False, material)"
proof (induction ms t index bFound material rule: FindMaterial_loop.induct)
  case (1 ms t index bFound material)
  show ?case
  proof (cases "index < length ms")
    case True
    with "1.prems" have ne: "tag (ms ! index) \<noteq> t" by simp
    have "FindMaterial_loop ms t (index + 1) bFound material = (False, material)"
      using "1.IH"(2) True ne "1.prems" by simp
    then show ?thesis
      using True ne "1.prems"(1) by (subst FindMaterial_loop.simps) simp
  next
    case False
    then show ?thesis using "1.prems"(1) by (subst FindMaterial_loop.simps) simp
  qed
qed

text \<open>
  On a registry that is not empty and has no entry with the tag, \<open>FindMaterial\<close> returns
  \<^verbatim>\<open>true\<close> and leaves the out-parameter as the caller passed it.
\<close>

lemma FindMaterial_miss:
  "m_objectMaterials st \<noteq> [] \<Longrightarrow> \<forall>m \<in> set (m_objectMaterials st). tag m \<noteq> t \<Longrightarrow>
   FindMaterial t material st = (True, material)"
proof -
  assume ne: "m_objectMaterials st \<noteq> []"
    and miss: "\<forall>m \<in> set (m_objectMaterials st). tag m \<noteq> t"
  have "FindMaterial_loop (m_objectMaterials st) t 0 False material = (False, material)"
    by (rule FindMaterial_loop_miss) (use miss in auto)
  with ne show ?thesis by (simp add: FindMaterial_def)
qed

lemma DefineObjectMaterials_materials:
  "m_objectMaterials (DefineObjectMaterials (new_SceneManager sh)) =
    [\<lparr>diffuseColor = Vec3 0.2 0.2 0.2, specularColor = Vec3 1.0 1.0 1.0,
      shininess = 95.0, tag = ''glass''\<rparr>,
     \<lparr>diffuseColor = Vec3 0.1 0.1 0.1, specularColor = Vec3 0.1 0.1 0.1,
      shininess = 0.01, tag = ''plastic''\<rparr>,
     \<lparr>diffuseColor = Vec3 0.3 0.3 0.3, specularColor = Vec3 0.7 0.7 0.7,
      shininess = 80.0, tag = ''wood''\<rparr>,
     \<lparr>diffuseColor = Vec3 0.3 0.3 0.3, specularColor = Vec3 0.6 0.6 0.6,
      shininess = 75.0, tag = ''wall''\<rparr>,
     \<lparr>diffuseColor = Vec3 0.6 0.6 0.6, specularColor = Vec3 0.2 0.2 0.2,
      shininess = 0.2, tag = ''shelf''\<rparr>]"
  by (simp add: DefineObjectMaterials_def new_SceneManager_def Let_def)

lemma DefineObjectMaterials_shader:
  "m_pShaderManager (DefineObjectMaterials (new_SceneManager sh)) = sh"
  by (simp add: DefineObjectMaterials_def new_SceneManager_def Let_def)

text \<open>
  Claim C1 (the code departs from it). The claim: \<^verbatim>\<open>FindMaterial\<close> reports failure when
  the registry is empty and also when it is not empty but holds no entry with the queried
  tag. The code: with the five materials of \<^verbatim>\<open>DefineObjectMaterials\<close> registered, the
  lookup of the tag \<^verbatim>\<open>metal\<close>, which none of them carries, returns \<^verbatim>\<open>true\<close>; the loop's
  flag \<^verbatim>\<open>bFound\<close> is false and the caller's material is left untouched.
\<close>

theorem FindMaterial_miss_returns_true:
  "FindMaterial ''metal'' None (DefineObjectMaterials (new_SceneManager (Some []))) = (True, None)
   \<and> material_found ''metal'' (DefineObjectMaterials (new_SceneManager (Some []))) = False
   \<and> ''metal'' \<notin> tag ` set (m_objectMaterials (DefineObjectMaterials (new_SceneManager (Some []))))"
  by (simp add: FindMaterial_def material_found_def DefineObjectMaterials_materials
      FindMaterial_loop.simps)

section \<open>Material uniforms\<close>

text \<open>
  Claim C2 (the code departs from it). The claim: for a tag that is not in the material
  registry, \<^verbatim>\<open>SetShaderMaterial\<close> writes no material uniform, whether the registry is
  empty or not. The code: with the five materials of \<^verbatim>\<open>DefineObjectMaterials\<close>
  registered and a shader bound, \<^verbatim>\<open>SetShaderMaterial("metal")\<close> calls the three setters,
  passing the fields of its uninitialised local.
\<close>

theorem SetShaderMaterial_miss_writes:
  "SetShaderMaterial ''metal'' (DefineObjectMaterials (new_SceneManager (Some []))) =
     Inr ((DefineObjectMaterials (new_SceneManager (Some [])))
       \<lparr>m_pShaderManager := Some
          [(''material.shininess'', UIndeterminate),
           (''material.specularColor'', UIndeterminate),
           (''material.diffuseColor'', UIndeterminate)]\<rparr>)"
  by (simp add: SetShaderMaterial_def FindMaterial_def DefineObjectMaterials_materials
      DefineObjectMaterials_shader FindMaterial_loop.simps setValue_def)

text \<open>
  The same on every registry that is not empty and lacks the tag; on an empty registry
  the call does write nothing.
\<close>

lemma SetShaderMaterial_miss:
  assumes "m_pShaderManager st = Some sh" and "m_objectMaterials st \<noteq> []"
    and "\<forall>m \<in> set (m_objectMaterials st). tag m \<noteq> t"
  shows "SetShaderMaterial t st =
     Inr (st\<lparr>m_pShaderManager := Some
        ((''material.shininess'', UIndeterminate)
         # (''material.specularColor'', UIndeterminate)
         # (''material.diffuseColor'', UIndeterminate) # sh)\<rparr>)"
proof -
  have "FindMaterial t None st = (True, None)"
    using assms(2,3) by (rule FindMaterial_miss)
  then show ?thesis
    using assms(1,2) by (simp add: SetShaderMaterial_def setValue_def)
qed


lemma SetShaderMaterial_empty_registry:
  "m_objectMaterials st = [] \<Longrightarrow> SetShaderMaterial t st = Inr st"
  by (simp add: SetShaderMaterial_def)

section \<open>No shader bound\<close>

lemma SetTransformations_null:
  "m_pShaderManager st = None \<Longrightarrow> SetTransformations s rx ry rz p st = Inr st"
  by (simp add: SetTransformations_def)

lemma SetShaderColor_null:
  "m_pShaderManager st = None \<Longrightarrow> SetShaderColor r g b a st = Inr st"
  by (simp add: SetShaderColor_def)

lemma SetShaderTexture_null:
  "m_pShaderManager st = None \<Longrightarrow> SetShaderTexture t st = Inr st"
  by (simp add: SetShaderTexture_def)

lemma SetTextureUVScale_null:
  "m_pShaderManager st = None \<Longrightarrow> SetTextureUVScale u v st = Inr st"
  by (simp add: SetTextureUVScale_def)

lemma SetShaderMaterial_null:
  "m_pShaderManager st = None \<Longrightarrow> m_objectMaterials st \<noteq> [] \<Longrightarrow>
   SetShaderMaterial t st = Inl NullPointerDereference"
  by (simp add: SetShaderMaterial_def FindMaterial_def setValue_def)

text \<open>
  Claim C6 (the code departs from it). The claim: each of the five broadcaster
  operations is a safe no-op when no shader is bound. The code: four of them test the
  pointer; \<^verbatim>\<open>SetShaderMaterial\<close> does not, and with the materials of
  \<^verbatim>\<open>DefineObjectMaterials\<close> registered and a null shader pointer,
  \<^verbatim>\<open>SetShaderMaterial("glass")\<close> calls a setter through the null pointer.
\<close>

theorem SetShaderMaterial_null_shader_faults:
  "SetShaderMaterial ''glass'' (DefineObjectMaterials (new_SceneManager None)) =
     Inl NullPointerDereference"
  by (simp add: SetShaderMaterial_def FindMaterial_def DefineObjectMaterials_materials
      DefineObjectMaterials_shader FindMaterial_loop.simps setValue_def)

section \<open>Texture registry: one load\<close>

lemma CreateGLTexture_reject:
  "colorChannels i \<noteq> 3 \<Longrightarrow> colorChannels i \<noteq> 4 \<Longrightarrow>
   CreateGLTexture (Some i) newID t st = Inr (False, st\<lparr>gl := glBindTexture newID (gl st)\<rparr>)"
  by (simp add: CreateGLTexture_def)

lemma CreateGLTexture_accept:
  "colorChannels i = 3 \<or> colorChannels i = 4 \<Longrightarrow>
   0 \<le> m_loadedTextures st \<Longrightarrow> nat (m_loadedTextures st) < length (m_textureIDs st) \<Longrightarrow>
   CreateGLTexture (Some i) newID t st =
     Inr (True, st\<lparr>gl := glBindTexture 0 (glBindTexture newID (gl st)),
       m_textureIDs := (m_textureIDs st)[nat (m_loadedTextures st) := \<lparr>tex_tag = t, tex_ID = newID\<rparr>],
       m_loadedTextures := m_loadedTextures st + 1\<rparr>)"
  by (auto simp add: CreateGLTexture_def Let_def)

lemma CreateGLTexture_overflow:
  "colorChannels i = 3 \<or> colorChannels i = 4 \<Longrightarrow>
   \<not> (0 \<le> m_loadedTextures st \<and> nat (m_loadedTextures st) < length (m_textureIDs st)) \<Longrightarrow>
   CreateGLTexture (Some i) newID t st = Inl IndexOutOfBounds"
  by (auto simp add: CreateGLTexture_def Let_def)

lemma CreateGLTexture_returns_false_iff:
  "(\<exists>st'. CreateGLTexture img newID t st = Inr (False, st')) =
     (case img of None \<Rightarrow> True | Some i \<Rightarrow> colorChannels i \<noteq> 3 \<and> colorChannels i \<noteq> 4)"
  by (auto simp add: CreateGLTexture_def Let_def split: option.splits)

lemma CreateGLTexture_effect:
  assumes "CreateGLTexture img newID t st = Inr (b, st')"
  shows "m_loadedTextures st' = (if b then m_loadedTextures st + 1 else m_loadedTextures st)"
    and "m_textureIDs st' = (if b then (m_textureIDs st)[nat (m_loadedTextures st) :=
            \<lparr>tex_tag = t, tex_ID = newID\<rparr>] else m_textureIDs st)"
    and "b \<Longrightarrow> 0 \<le> m_loadedTextures st \<and> nat (m_loadedTextures st) < length (m_textureIDs st)"
    and "m_pShaderManager st' = m_pShaderManager st"
    and "m_objectMaterials st' = m_objectMaterials st"
    and "drawn st' = drawn st"
  using assms by (auto simp add: CreateGLTexture_def Let_def split: option.splits if_splits)

text \<open>
  Claim C9. An image that decodes with a channel count other than 3 and 4 makes
  \<^verbatim>\<open>CreateGLTexture\<close> return \<^verbatim>\<open>false\<close>; the array of entries and the count of
  loaded textures are after the call what they were before it.
\<close>

theorem CreateGLTexture_unsupported_channels:
  "colorChannels i \<noteq> 3 \<Longrightarrow> colorChannels i \<noteq> 4 \<Longrightarrow>
   \<exists>st'. CreateGLTexture (Some i) newID t st = Inr (False, st')
     \<and> m_textureIDs st' = m_textureIDs st
     \<and> m_loadedTextures st' = m_loadedTextures st"
  by (simp add: CreateGLTexture_def)

theorem CreateGLTexture_unsupported_channels_witness:
  "fst (projr (CreateGLTexture (Some \<lparr>width = 4, height = 4, colorChannels = 1\<rparr>) 7 ''gray''
      (new_SceneManager None))) = False
   \<and> m_loadedTextures (snd (projr (CreateGLTexture (Some \<lparr>width = 4, height = 4, colorChannels = 1\<rparr>) 7 ''gray''
      (new_SceneManager None)))) = 0
   \<and> m_textureIDs (snd (projr (CreateGLTexture (Some \<lparr>width = 4, height = 4, colorChannels = 1\<rparr>) 7 ''gray''
      (new_SceneManager None)))) = replicate 16 \<lparr>tex_tag = [], tex_ID = 0\<rparr>"
  using CreateGLTexture_unsupported_channels
    [of "\<lparr>width = 4, height = 4, colorChannels = 1\<rparr>" 7 "''gray''" "new_SceneManager None"]
  by (auto simp add: new_SceneManager_def texture_capacity_def)

section \<open>Texture registry: a run of loads\<close>

lemma take_Suc_update:
  "k < length xs \<Longrightarrow> take (Suc k) (xs[k := e]) = take k xs @ [e]"
  by (simp add: take_Suc_conv_app_nth)

lemma CreateGLTextures_registry:
  "CreateGLTextures reqs st = Inr (bs, st') \<Longrightarrow>
   0 \<le> m_loadedTextures st \<Longrightarrow> nat (m_loadedTextures st) \<le> length (m_textureIDs st) \<Longrightarrow>
   length bs = length reqs
   \<and> m_loadedTextures st' = m_loadedTextures st + int (length (successful reqs bs))
   \<and> length (m_textureIDs st') = length (m_textureIDs st)
   \<and> nat (m_loadedTextures st') \<le> length (m_textureIDs st')
   \<and> take (nat (m_loadedTextures st')) (m_textureIDs st') =
       take (nat (m_loadedTextures st)) (m_textureIDs st) @ map registered (successful reqs bs)"
proof (induction reqs arbitrary: st bs)
  case Nil
  then show ?case by simp
next
  case (Cons r rs)
  obtain img newID t where r: "r = (img, newID, t)" by (cases r)
  from Cons.prems(1) r obtain b st1 bs1 where
    one: "CreateGLTexture img newID t st = Inr (b, st1)"
    and rest: "CreateGLTextures rs st1 = Inr (bs1, st')"
    and bs: "bs = b # bs1"
    by (auto split: sum.splits prod.splits)
  note eff = CreateGLTexture_effect[OF one]
  have n1: "0 \<le> m_loadedTextures st1" using eff(1) Cons.prems(2) by (simp split: if_splits)
  have l1: "nat (m_loadedTextures st1) \<le> length (m_textureIDs st1)"
    using eff(1,2,3) Cons.prems(2,3) by (cases b) auto
  note IH = Cons.IH[OF rest n1 l1]
  let ?succ = "successful rs bs1"
  from IH have L: "length bs1 = length rs"
    and N: "m_loadedTextures st' = m_loadedTextures st1 + int (length ?succ)"
    and LEN: "length (m_textureIDs st') = length (m_textureIDs st1)"
    and LE: "nat (m_loadedTextures st') \<le> length (m_textureIDs st')"
    and TK: "take (nat (m_loadedTextures st')) (m_textureIDs st') =
       take (nat (m_loadedTextures st1)) (m_textureIDs st1) @ map registered ?succ"
    by blast+
  show ?case
  proof (cases b)
    case True
    then have lt: "nat (m_loadedTextures st) < length (m_textureIDs st)" using eff(3) by simp
    have n1': "m_loadedTextures st1 = m_loadedTextures st + 1" using eff(1) True by simp
    have ids1: "m_textureIDs st1 = (m_textureIDs st)[nat (m_loadedTextures st) := registered r]"
      using eff(2) True by (simp add: registered_def r)
    have "nat (m_loadedTextures st1) = Suc (nat (m_loadedTextures st))"
      using n1' Cons.prems(2) by simp
    then have tk1: "take (nat (m_loadedTextures st1)) (m_textureIDs st1) =
        take (nat (m_loadedTextures st)) (m_textureIDs st) @ [registered r]"
      using ids1 lt by (simp add: take_Suc_update)
    have succ: "successful (r # rs) bs = r # ?succ" using True by (simp add: bs)
    have "length bs = length (r # rs)" using L by (simp add: bs)
    moreover have "m_loadedTextures st' = m_loadedTextures st + int (length (successful (r # rs) bs))"
      using N n1' by (simp add: succ)
    moreover have "length (m_textureIDs st') = length (m_textureIDs st)"
      using LEN ids1 by simp
    moreover have "take (nat (m_loadedTextures st')) (m_textureIDs st') =
       take (nat (m_loadedTextures st)) (m_textureIDs st) @ map registered (successful (r # rs) bs)"
      using TK tk1 by (simp add: succ)
    ultimately show ?thesis using LE by blast
  next
    case False
    have n1': "m_loadedTextures st1 = m_loadedTextures st" using eff(1) False by simp
    have ids1: "m_textureIDs st1 = m_textureIDs st" using eff(2) False by simp
    have succ: "successful (r # rs) bs = ?succ" using False by (simp add: bs)
    have "length bs = length (r # rs)" using L by (simp add: bs)
    moreover have "m_loadedTextures st' = m_loadedTextures st + int (length (successful (r # rs) bs))"
      using N n1' by (simp add: succ)
    moreover have "length (m_textureIDs st') = length (m_textureIDs st)"
      using LEN ids1 by simp
    moreover have "take (nat (m_loadedTextures st')) (m_textureIDs st') =
       take (nat (m_loadedTextures st)) (m_textureIDs st) @ map registered (successful (r # rs) bs)"
      using TK n1' ids1 by (simp add: succ)
    ultimately show ?thesis using LE by blast
  qed
qed

lemma CreateGLTextures_supported:
  "list_all supported reqs \<Longrightarrow>
   0 \<le> m_loadedTextures st \<Longrightarrow> nat (m_loadedTextures st) \<le> length (m_textureIDs st) \<Longrightarrow>
   (if nat (m_loadedTextures st) + length reqs \<le> length (m_textureIDs st)
    then \<exists>st'. CreateGLTextures reqs st = Inr (replicate (length reqs) True, st')
    else CreateGLTextures reqs st = Inl IndexOutOfBounds)"
proof (induction reqs arbitrary: st)
  case Nil
  then show ?case by simp
next
  case (Cons r rs)
  obtain img newID t where r: "r = (img, newID, t)" by (cases r)
  from Cons.prems(1) r obtain i where i: "img = Some i" "colorChannels i = 3 \<or> colorChannels i = 4"
    by (auto simp add: supported_def split: option.splits)
  show ?case
  proof (cases "nat (m_loadedTextures st) < length (m_textureIDs st)")
    case True
    let ?st1 = "st\<lparr>gl := glBindTexture 0 (glBindTexture newID (gl st)),
       m_textureIDs := (m_textureIDs st)[nat (m_loadedTextures st) := \<lparr>tex_tag = t, tex_ID = newID\<rparr>],
       m_loadedTextures := m_loadedTextures st + 1\<rparr>"
    have one: "CreateGLTexture img newID t st = Inr (True, ?st1)"
      using CreateGLTexture_accept[OF i(2) Cons.prems(2) True] i(1) by simp
    have "list_all supported rs" using Cons.prems(1) by simp
    moreover have "0 \<le> m_loadedTextures ?st1" using Cons.prems(2) by simp
    moreover have "nat (m_loadedTextures ?st1) \<le> length (m_textureIDs ?st1)"
      using True Cons.prems(2) by simp
    ultimately have IH: "(if nat (m_loadedTextures ?st1) + length rs \<le> length (m_textureIDs ?st1)
      then \<exists>st'. CreateGLTextures rs ?st1 = Inr (replicate (length rs) True, st')
      else CreateGLTextures rs ?st1 = Inl IndexOutOfBounds)"
      by (rule Cons.IH)
    have eq: "nat (m_loadedTextures ?st1) + length rs = nat (m_loadedTextures st) + length (r # rs)"
      using Cons.prems(2) by simp
    show ?thesis
    proof (cases "nat (m_loadedTextures st) + length (r # rs) \<le> length (m_textureIDs st)")
      case le: True
      with IH eq obtain st' where "CreateGLTextures rs ?st1 = Inr (replicate (length rs) True, st')"
        by (auto split: if_splits)
      with one le show ?thesis by (simp add: r)
    next
      case gt: False
      with IH eq have "CreateGLTextures rs ?st1 = Inl IndexOutOfBounds"
        by (auto split: if_splits)
      with one gt show ?thesis by (simp add: r)
    qed
  next
    case False
    then have "CreateGLTexture img newID t st = Inl IndexOutOfBounds"
      using CreateGLTexture_overflow[OF i(2), of st newID t] i(1) by simp
    with False show ?thesis by (simp add: r)
  qed
qed

lemma example_scene_loaded:
  "CreateGLTextures example_requests (new_SceneManager (Some [])) =
     Inr ([True, False, True], example_scene)"
  by (simp add: example_requests_def example_scene_def CreateGLTexture_def new_SceneManager_def
      texture_capacity_def glBindTexture_def Let_def eval_nat_numeral fun_upd_idem_iff)

text \<open>
  Claim C10. \<^verbatim>\<open>CreateGLTexture\<close> has no capacity test. A load whose file decodes with
  three or four channels writes the entry at index \<^verbatim>\<open>m_loadedTextures\<close> and increments
  the count when that index lies inside the array, and writes outside the array
  otherwise; it is never turned down because the registry is full. So on a new scene
  manager a run of such loads stays inside the array exactly when it has at most
  \<open>texture_capacity\<close> loads.
\<close>

theorem CreateGLTexture_no_capacity_limit:
  "(supported (img, newID, t) \<longrightarrow>
      CreateGLTexture img newID t st =
        (if 0 \<le> m_loadedTextures st \<and> nat (m_loadedTextures st) < length (m_textureIDs st)
         then Inr (True, st\<lparr>gl := glBindTexture 0 (glBindTexture newID (gl st)),
                m_textureIDs := (m_textureIDs st)[nat (m_loadedTextures st) :=
                  \<lparr>tex_tag = t, tex_ID = newID\<rparr>],
                m_loadedTextures := m_loadedTextures st + 1\<rparr>)
         else Inl IndexOutOfBounds))
   \<and> (list_all supported reqs \<longrightarrow>
        (if length reqs \<le> texture_capacity
         then \<exists>st'. CreateGLTextures reqs (new_SceneManager sh) =
                Inr (replicate (length reqs) True, st')
         else CreateGLTextures reqs (new_SceneManager sh) = Inl IndexOutOfBounds))"
proof (intro conjI impI)
  assume "supported (img, newID, t)"
  then obtain i where i: "img = Some i" "colorChannels i = 3 \<or> colorChannels i = 4"
    by (auto simp add: supported_def split: option.splits)
  show "CreateGLTexture img newID t st =
        (if 0 \<le> m_loadedTextures st \<and> nat (m_loadedTextures st) < length (m_textureIDs st)
         then Inr (True, st\<lparr>gl := glBindTexture 0 (glBindTexture newID (gl st)),
                m_textureIDs := (m_textureIDs st)[nat (m_loadedTextures st) :=
                  \<lparr>tex_tag = t, tex_ID = newID\<rparr>],
                m_loadedTextures := m_loadedTextures st + 1\<rparr>)
         else Inl IndexOutOfBounds)"
  proof (cases "0 \<le> m_loadedTextures st \<and> nat (m_loadedTextures st) < length (m_textureIDs st)")
    case True
    then show ?thesis using CreateGLTexture_accept[OF i(2), of st newID t] i(1) by simp
  next
    case False
    then show ?thesis using CreateGLTexture_overflow[OF i(2), of st newID t] i(1) by simp
  qed
next
  assume sup: "list_all supported reqs"
  let ?st0 = "new_SceneManager sh"
  have "0 \<le> m_loadedTextures ?st0" "nat (m_loadedTextures ?st0) \<le> length (m_textureIDs ?st0)"
    by (simp_all add: new_SceneManager_def)
  from CreateGLTextures_supported[OF sup this]
  show "if length reqs \<le> texture_capacity
         then \<exists>st'. CreateGLTextures reqs ?st0 = Inr (replicate (length reqs) True, st')
         else CreateGLTextures reqs ?st0 = Inl IndexOutOfBounds"
    by (simp add: new_SceneManager_def)
qed

theorem CreateGLTexture_no_capacity_limit_witness:
  "CreateGLTexture (Some \<lparr>width = 8, height = 8, colorChannels = 4\<rparr>) 9 ''wall''
      ((new_SceneManager None)\<lparr>m_loadedTextures := 16\<rparr>) = Inl IndexOutOfBounds
   \<and> CreateGLTextures (replicate 17 (Some \<lparr>width = 8, height = 8, colorChannels = 3\<rparr>, 5, ''wood''))
      (new_SceneManager None) = Inl IndexOutOfBounds
   \<and> (\<exists>st'. CreateGLTextures
          (replicate 16 (Some \<lparr>width = 8, height = 8, colorChannels = 3\<rparr>, 5, ''wood''))
          (new_SceneManager None) = Inr (replicate 16 True, st'))"
  using CreateGLTexture_no_capacity_limit
      [of "Some \<lparr>width = 8, height = 8, colorChannels = 4\<rparr>" 9 "''wall''"
          "(new_SceneManager None)\<lparr>m_loadedTextures := 16\<rparr>"
          "replicate 17 (Some \<lparr>width = 8, height = 8, colorChannels = 3\<rparr>, 5, ''wood'')" None]
    CreateGLTexture_no_capacity_limit
      [of None 0 "[]" "new_SceneManager None"
          "replicate 16 (Some \<lparr>width = 8, height = 8, colorChannels = 3\<rparr>, 5, ''wood'')" None]
  by (simp add: supported_def texture_capacity_def list_all_length new_SceneManager_def)

section \<open>Texture lookup and binding\<close>

lemma FindTextureSlot_loop_found:
  "FindTextureSlot_loop st t index True textureSlot = Inr textureSlot"
  by (subst FindTextureSlot_loop.simps) simp

lemma FindTextureSlot_loop_miss:
  "bFound = False \<Longrightarrow> nat (m_loadedTextures st) \<le> length (m_textureIDs st) \<Longrightarrow>
   \<forall>j. index \<le> j \<and> int j < m_loadedTextures st \<longrightarrow> tex_tag (m_textureIDs st ! j) \<noteq> t \<Longrightarrow>
   FindTextureSlot_loop st t index bFound textureSlot = Inr textureSlot"
proof (induction st t index bFound textureSlot rule: FindTextureSlot_loop.induct)
  case (1 st t index bFound textureSlot)
  show ?case
  proof (cases "int index < m_loadedTextures st")
    case True
    then have inb: "index < length (m_textureIDs st)" using "1.prems"(2) by linarith
    from True "1.prems"(3) have ne: "tex_tag (m_textureIDs st ! index) \<noteq> t" by simp
    have "FindTextureSlot_loop st t (index + 1) bFound textureSlot = Inr textureSlot"
      using "1.IH"(2) True inb ne "1.prems" by simp
    then show ?thesis
      using True inb ne "1.prems"(1) by (subst FindTextureSlot_loop.simps) simp
  next
    case False
    then show ?thesis by (subst FindTextureSlot_loop.simps) simp
  qed
qed

lemma FindTextureSlot_loop_hit:
  "bFound = False \<Longrightarrow> index \<le> k \<Longrightarrow> int k < m_loadedTextures st \<Longrightarrow>
   k < length (m_textureIDs st) \<Longrightarrow> tex_tag (m_textureIDs st ! k) = t \<Longrightarrow>
   \<forall>j. index \<le> j \<and> j < k \<longrightarrow> tex_tag (m_textureIDs st ! j) \<noteq> t \<Longrightarrow>
   FindTextureSlot_loop st t index bFound textureSlot = Inr (int k)"
proof (induction st t index bFound textureSlot rule: FindTextureSlot_loop.induct)
  case (1 st t index bFound textureSlot)
  have lt: "int index < m_loadedTextures st" using "1.prems"(2,3) by simp
  have inb: "index < length (m_textureIDs st)" using "1.prems"(2,4) by simp
  show ?case
  proof (cases "index = k")
    case True
    then show ?thesis
      using lt inb "1.prems"(1,5)
      by (subst FindTextureSlot_loop.simps) (simp add: FindTextureSlot_loop_found)
  next
    case False
    then have ne: "tex_tag (m_textureIDs st ! index) \<noteq> t" using "1.prems"(2,6) by simp
    have "FindTextureSlot_loop st t (index + 1) bFound textureSlot = Inr (int k)"
      using "1.IH"(2) lt inb ne False "1.prems" by simp
    then show ?thesis
      using lt inb ne "1.prems"(1) by (subst FindTextureSlot_loop.simps) simp
  qed
qed

lemma BindGLTextures_loop_result:
  "nat (m_loadedTextures st) \<le> length (m_textureIDs st) \<Longrightarrow>
   \<exists>g. BindGLTextures_loop i st = Inr (st\<lparr>gl := g\<rparr>)
     \<and> (\<forall>k. boundTexture2D g k =
          (if i \<le> k \<and> int k < m_loadedTextures st then tex_ID (m_textureIDs st ! k)
           else boundTexture2D (gl st) k))"
proof (induction i st rule: BindGLTextures_loop.induct)
  case (1 i st)
  show ?case
  proof (cases "int i < m_loadedTextures st")
    case True
    then have inb: "i < length (m_textureIDs st)" using "1.prems" by linarith
    let ?st1 = "st\<lparr>gl := glBindTexture (tex_ID (m_textureIDs st ! i)) (glActiveTexture i (gl st))\<rparr>"
    have "nat (m_loadedTextures ?st1) \<le> length (m_textureIDs ?st1)" using "1.prems" by simp
    from "1.IH"[OF True inb this] obtain g where
      g: "BindGLTextures_loop (i + 1) ?st1 = Inr (?st1\<lparr>gl := g\<rparr>)"
      and b: "\<forall>k. boundTexture2D g k =
          (if i + 1 \<le> k \<and> int k < m_loadedTextures ?st1 then tex_ID (m_textureIDs ?st1 ! k)
           else boundTexture2D (gl ?st1) k)"
      by blast
    have "BindGLTextures_loop i st = Inr (st\<lparr>gl := g\<rparr>)"
      using True inb g by (subst BindGLTextures_loop.simps) simp
    moreover have "\<forall>k. boundTexture2D g k =
          (if i \<le> k \<and> int k < m_loadedTextures st then tex_ID (m_textureIDs st ! k)
           else boundTexture2D (gl st) k)"
      using b True by (auto simp add: glBindTexture_def glActiveTexture_def)
    ultimately show ?thesis by blast
  next
    case False
    then have "BindGLTextures_loop i st = Inr (st\<lparr>gl := gl st\<rparr>)"
      by (subst BindGLTextures_loop.simps) simp
    with False show ?thesis by (intro exI[of _ "gl st"]) simp
  qed
qed

text \<open>
  Claim C8. With a shader bound and a tag that none of the loaded textures carries,
  \<^verbatim>\<open>SetShaderTexture\<close> writes the use-texture flag as true (the integer 1) and then
  writes the sentinel \<open>-1\<close> as the sampler uniform.
\<close>

theorem SetShaderTexture_unknown_tag:
  assumes "m_pShaderManager st = Some sh"
    and "nat (m_loadedTextures st) \<le> length (m_textureIDs st)"
    and "\<forall>j. int j < m_loadedTextures st \<longrightarrow> tex_tag (m_textureIDs st ! j) \<noteq> t"
  shows "SetShaderTexture t st =
           Inr (st\<lparr>m_pShaderManager :=
             Some ((g_TextureValueName, USampler2D (- 1)) # (g_UseTextureName, UInt 1) # sh)\<rparr>)"
proof -
  let ?st1 = "st\<lparr>m_pShaderManager := Some ((g_UseTextureName, UInt 1) # sh)\<rparr>"
  have "FindTextureSlot_loop ?st1 t 0 False (- 1) = Inr (- 1)"
    by (rule FindTextureSlot_loop_miss) (use assms in auto)
  then show ?thesis
    using assms(1) by (simp add: SetShaderTexture_def setValue_def FindTextureSlot_def)
qed

theorem SetShaderTexture_unknown_tag_witness:
  "SetShaderTexture ''sauce1'' example_scene =
     Inr (example_scene\<lparr>m_pShaderManager :=
       Some [(''objectTexture'', USampler2D (- 1)), (''bUseTexture'', UInt 1)]\<rparr>)"
proof -
  have "\<forall>j. int j < m_loadedTextures example_scene \<longrightarrow>
          tex_tag (m_textureIDs example_scene ! j) \<noteq> ''sauce1''"
  proof (intro allI impI)
    fix j assume "int j < m_loadedTextures example_scene"
    then have "j = 0 \<or> j = 1" by (auto simp add: example_scene_def)
    then show "tex_tag (m_textureIDs example_scene ! j) \<noteq> ''sauce1''"
      by (auto simp add: example_scene_def)
  qed
  then show ?thesis
    using SetShaderTexture_unknown_tag [of example_scene "[]" "''sauce1''"]
    by (simp add: example_scene_def g_TextureValueName_def g_UseTextureName_def)
qed

text \<open>
  Claim C7. After a run of loads on an empty registry, of which \<open>N\<close> returned
  \<^verbatim>\<open>true\<close> with pairwise distinct tags, \<^verbatim>\<open>FindTextureSlot\<close> of the tag loaded \<open>k\<close>-th
  (counting from 0) is \<open>k\<close>, and \<^verbatim>\<open>BindGLTextures\<close> binds the texture loaded \<open>k\<close>-th to
  texture unit \<open>k\<close> and leaves every unit from \<open>N\<close> on as it was.
\<close>

theorem texture_slot_stability:
  assumes run: "CreateGLTextures reqs st0 = Inr (bs, st)"
    and empty: "m_loadedTextures st0 = 0"
    and dist: "distinct (map (\<lambda>r. snd (snd r)) (successful reqs bs))"
    and k: "k < length (successful reqs bs)"
  shows "FindTextureSlot (snd (snd (successful reqs bs ! k))) st = Inr (int k)
     \<and> (\<exists>g. BindGLTextures st = Inr (st\<lparr>gl := g\<rparr>)
          \<and> boundTexture2D g k = fst (snd (successful reqs bs ! k))
          \<and> (\<forall>u. length (successful reqs bs) \<le> u \<longrightarrow>
                boundTexture2D g u = boundTexture2D (gl st) u))"
proof -
  let ?succ = "successful reqs bs"
  have "0 \<le> m_loadedTextures st0" and "nat (m_loadedTextures st0) \<le> length (m_textureIDs st0)"
    using empty by simp_all
  note reg = CreateGLTextures_registry[OF run this]
  from reg have "m_loadedTextures st = m_loadedTextures st0 + int (length ?succ)"
    by blast
  then have N: "m_loadedTextures st = int (length ?succ)"
    using empty by simp
  from reg have LE: "nat (m_loadedTextures st) \<le> length (m_textureIDs st)"
    by blast
  from reg have "take (nat (m_loadedTextures st)) (m_textureIDs st) =
      take (nat (m_loadedTextures st0)) (m_textureIDs st0) @ map registered ?succ"
    by blast
  then have TK: "take (nat (m_loadedTextures st)) (m_textureIDs st) = map registered ?succ"
    using empty by simp
  have entry: "m_textureIDs st ! j = registered (?succ ! j)" if "j < length ?succ" for j
  proof -
    have "m_textureIDs st ! j = take (nat (m_loadedTextures st)) (m_textureIDs st) ! j"
      using that N by simp
    also have "\<dots> = registered (?succ ! j)" using TK that by simp
    finally show ?thesis .
  qed
  have tagk: "tex_tag (m_textureIDs st ! k) = snd (snd (?succ ! k))"
    using entry[OF k] by (simp add: registered_def)
  have others: "\<forall>j. 0 \<le> j \<and> j < k \<longrightarrow> tex_tag (m_textureIDs st ! j) \<noteq> snd (snd (?succ ! k))"
  proof (intro allI impI)
    fix j assume j: "0 \<le> j \<and> j < k"
    then have jl: "j < length ?succ" using k by simp
    have "j < length (map (\<lambda>r. snd (snd r)) ?succ)" "k < length (map (\<lambda>r. snd (snd r)) ?succ)"
      using jl k by simp_all
    with dist have "map (\<lambda>r. snd (snd r)) ?succ ! j = map (\<lambda>r. snd (snd r)) ?succ ! k \<longleftrightarrow> j = k"
      by (rule nth_eq_iff_index_eq)
    with j have "map (\<lambda>r. snd (snd r)) ?succ ! j \<noteq> map (\<lambda>r. snd (snd r)) ?succ ! k"
      by simp
    then show "tex_tag (m_textureIDs st ! j) \<noteq> snd (snd (?succ ! k))"
      using entry[OF jl] jl k by (simp add: registered_def)
  qed
  have "FindTextureSlot_loop st (snd (snd (?succ ! k))) 0 False (- 1) = Inr (int k)"
  proof (rule FindTextureSlot_loop_hit)
    show "int k < m_loadedTextures st" using N k by simp
    show "k < length (m_textureIDs st)" using N LE k by simp
  qed (use tagk others in auto)
  then have slot: "FindTextureSlot (snd (snd (?succ ! k))) st = Inr (int k)"
    by (simp add: FindTextureSlot_def)
  from BindGLTextures_loop_result[OF LE, of 0] obtain g where
    g: "BindGLTextures_loop 0 st = Inr (st\<lparr>gl := g\<rparr>)"
    and b: "\<forall>u. boundTexture2D g u =
          (if 0 \<le> u \<and> int u < m_loadedTextures st then tex_ID (m_textureIDs st ! u)
           else boundTexture2D (gl st) u)"
    by blast
  have "boundTexture2D g k = fst (snd (?succ ! k))"
    using b N k entry[OF k] by (simp add: registered_def)
  moreover have "\<forall>u. length ?succ \<le> u \<longrightarrow> boundTexture2D g u = boundTexture2D (gl st) u"
    using b N by simp
  ultimately show ?thesis using slot g by (auto simp add: BindGLTextures_def)
qed

theorem texture_slot_stability_witness:
  "FindTextureSlot ''lid'' example_scene = Inr 1
     \<and> (\<exists>g. BindGLTextures example_scene = Inr (example_scene\<lparr>gl := g\<rparr>)
          \<and> boundTexture2D g 1 = 2
          \<and> (\<forall>u. 2 \<le> u \<longrightarrow> boundTexture2D g u = 0))"
proof -
  have succ: "successful example_requests [True, False, True] =
      [(Some \<lparr>width = 512, height = 512, colorChannels = 3\<rparr>, 1, ''wood''),
       (Some \<lparr>width = 64, height = 64, colorChannels = 4\<rparr>, 2, ''lid'')]"
    by (simp add: example_requests_def)
  have gl: "boundTexture2D (gl example_scene) = (\<lambda>_. 0)"
    by (simp add: example_scene_def)
  have "m_loadedTextures (new_SceneManager (Some [])) = 0"
    by (simp add: new_SceneManager_def)
  from texture_slot_stability [OF example_scene_loaded this, of 1]
  show ?thesis by (simp add: succ gl numeral_2_eq_2)
qed

section \<open>Transform composition\<close>

lemma glm_scale_spec: "glm_scale s = spec_Scale s"
  by (cases s) (simp add: glm_scale_def spec_Scale_def mat4_identity_def mat4_of_rows_def)

lemma glm_translate_spec: "glm_translate t = spec_Translate t"
  by (cases t) (simp add: glm_translate_def spec_Translate_def mat4_identity_def mat4_of_rows_def)

lemma glm_rotate_x_spec: "glm_rotate a (Vec3 1 0 0) = spec_RotateX a"
  by (simp add: glm_rotate_def spec_RotateX_def mat4_identity_def mat4_of_rows_def
      glm_normalize_def Let_def)

lemma glm_rotate_y_spec: "glm_rotate a (Vec3 0 1 0) = spec_RotateY a"
  by (simp add: glm_rotate_def spec_RotateY_def mat4_identity_def mat4_of_rows_def
      glm_normalize_def Let_def)

lemma glm_rotate_z_spec: "glm_rotate a (Vec3 0 0 1) = spec_RotateZ a"
  by (simp add: glm_rotate_def spec_RotateZ_def mat4_identity_def mat4_of_rows_def
      glm_normalize_def Let_def)

lemma modelView_spec: "modelView s rx ry rz t = spec_Compose s rx ry rz t"
  by (simp add: modelView_def spec_Compose_def glm_scale_spec glm_translate_spec
      glm_rotate_x_spec glm_rotate_y_spec glm_rotate_z_spec glm_radians_def Let_def)

lemma mat4_times_vec4_assoc:
  "mat4_times_vec4 (mat4_times A B) v = mat4_times_vec4 A (mat4_times_vec4 B v)"
proof (cases A)
  case A: (Mat4 a0 a1 a2 a3)
  obtain b0 b1 b2 b3 where B: "B = Mat4 b0 b1 b2 b3" by (cases B)
  obtain x y z w where v: "v = Vec4 x y z w" by (cases v)
  obtain b00 b01 b02 b03 where b0: "b0 = Vec4 b00 b01 b02 b03" by (cases b0)
  obtain b10 b11 b12 b13 where b1: "b1 = Vec4 b10 b11 b12 b13" by (cases b1)
  obtain b20 b21 b22 b23 where b2: "b2 = Vec4 b20 b21 b22 b23" by (cases b2)
  obtain b30 b31 b32 b33 where b3: "b3 = Vec4 b30 b31 b32 b33" by (cases b3)
  obtain a00 a01 a02 a03 where a0: "a0 = Vec4 a00 a01 a02 a03" by (cases a0)
  obtain a10 a11 a12 a13 where a1: "a1 = Vec4 a10 a11 a12 a13" by (cases a1)
  obtain a20 a21 a22 a23 where a2: "a2 = Vec4 a20 a21 a22 a23" by (cases a2)
  obtain a30 a31 a32 a33 where a3: "a3 = Vec4 a30 a31 a32 a33" by (cases a3)
  show ?thesis
    by (simp add: A B v b0 b1 b2 b3 a0 a1 a2 a3 algebra_simps)
qed

lemma spec_Scale_point:
  "mat4_times_vec4 (spec_Scale s) (Vec4 (vx p) (vy p) (vz p) w) =
     Vec4 (vx (scale_point s p)) (vy (scale_point s p)) (vz (scale_point s p)) w"
  by (simp add: spec_Scale_def mat4_of_rows_def scale_point_def)

lemma spec_RotateX_point:
  "mat4_times_vec4 (spec_RotateX a) (Vec4 (vx p) (vy p) (vz p) w) =
     Vec4 (vx (rotate_x_point a p)) (vy (rotate_x_point a p)) (vz (rotate_x_point a p)) w"
  by (simp add: spec_RotateX_def mat4_of_rows_def rotate_x_point_def algebra_simps)

lemma spec_RotateY_point:
  "mat4_times_vec4 (spec_RotateY a) (Vec4 (vx p) (vy p) (vz p) w) =
     Vec4 (vx (rotate_y_point a p)) (vy (rotate_y_point a p)) (vz (rotate_y_point a p)) w"
  by (simp add: spec_RotateY_def mat4_of_rows_def rotate_y_point_def algebra_simps)

lemma spec_RotateZ_point:
  "mat4_times_vec4 (spec_RotateZ a) (Vec4 (vx p) (vy p) (vz p) w) =
     Vec4 (vx (rotate_z_point a p)) (vy (rotate_z_point a p)) (vz (rotate_z_point a p)) w"
  by (simp add: spec_RotateZ_def mat4_of_rows_def rotate_z_point_def algebra_simps)

lemma spec_Translate_point:
  "mat4_times_vec4 (spec_Translate t) (Vec4 (vx p) (vy p) (vz p) 1) =
     Vec4 (vx (translate_point t p)) (vy (translate_point t p)) (vz (translate_point t p)) 1"
  by (simp add: spec_Translate_def mat4_of_rows_def translate_point_def algebra_simps)

lemma vec3_collapse: "Vec3 (vx p) (vy p) (vz p) = p"
  by (cases p) simp

lemma spec_Compose_point:
  "transform_point (spec_Compose s rx ry rz t) q =
     translate_point t (rotate_z_point (rz * pi / 180) (rotate_y_point (ry * pi / 180)
       (rotate_x_point (rx * pi / 180) (scale_point s q))))"
  by (simp add: transform_point_def spec_Compose_def mat4_times_vec4_assoc spec_Scale_point
      spec_RotateX_point spec_RotateY_point spec_RotateZ_point spec_Translate_point vec3_collapse)

text \<open>
  Claim C4. With a shader bound, \<^verbatim>\<open>SetTransformations\<close> writes to the \<^verbatim>\<open>model\<close>
  uniform the product Translate * RotateZ * RotateY * RotateX * Scale of the five
  matrices of the spec, each rotation about its own coordinate axis by the degree
  argument converted to radians; applied to a point, that matrix scales it, rotates it
  about X, then about Y, then about Z, and translates it.
\<close>

theorem SetTransformations_model_matrix:
  assumes "m_pShaderManager st = Some sh"
  shows "SetTransformations scaleXYZ rx ry rz positionXYZ st =
           Inr (st\<lparr>m_pShaderManager := Some ((g_ModelName,
                  UMat4 (spec_Compose scaleXYZ rx ry rz positionXYZ)) # sh)\<rparr>)
         \<and> transform_point (spec_Compose scaleXYZ rx ry rz positionXYZ) q =
             translate_point positionXYZ (rotate_z_point (rz * pi / 180)
               (rotate_y_point (ry * pi / 180) (rotate_x_point (rx * pi / 180)
                 (scale_point scaleXYZ q))))"
  using assms
  by (simp add: SetTransformations_def setValue_def modelView_spec spec_Compose_point)

theorem SetTransformations_model_matrix_witness:
  "SetTransformations (Vec3 2 3 4) 90 0 0 (Vec3 5 6 7) (new_SceneManager (Some [])) =
     Inr ((new_SceneManager (Some []))\<lparr>m_pShaderManager := Some [(''model'',
        UMat4 (Mat4 (Vec4 2 0 0 0) (Vec4 0 0 3 0) (Vec4 0 (- 4) 0 0) (Vec4 5 6 7 1)))]\<rparr>)
   \<and> transform_point (Mat4 (Vec4 2 0 0 0) (Vec4 0 0 3 0) (Vec4 0 (- 4) 0 0) (Vec4 5 6 7 1))
        (Vec3 1 1 1) = Vec3 7 2 10"
proof -
  have sh: "m_pShaderManager (new_SceneManager (Some [])) = Some []"
    by (simp add: new_SceneManager_def)
  have M: "spec_Compose (Vec3 2 3 4) 90 0 0 (Vec3 5 6 7) =
      Mat4 (Vec4 2 0 0 0) (Vec4 0 0 3 0) (Vec4 0 (- 4) 0 0) (Vec4 5 6 7 1)"
    by (simp add: spec_Compose_def spec_Translate_def spec_RotateX_def spec_RotateY_def
        spec_RotateZ_def spec_Scale_def mat4_of_rows_def)
  from SetTransformations_model_matrix [OF sh, of "Vec3 2 3 4" 90 0 0 "Vec3 5 6 7" "Vec3 1 1 1"]
  show ?thesis
    by (simp add: M g_ModelName_def translate_point_def rotate_x_point_def rotate_y_point_def
        rotate_z_point_def scale_point_def)
qed

lemma modelView_rotate_x_90:
  "modelView (Vec3 1 1 1) 90 0 0 (Vec3 0 0 0) =
     Mat4 (Vec4 1 0 0 0) (Vec4 0 0 1 0) (Vec4 0 (- 1) 0 0) (Vec4 0 0 0 1)"
  by (simp add: modelView_def glm_scale_def glm_rotate_def glm_translate_def glm_radians_def
      glm_normalize_def mat4_identity_def Let_def)

text \<open>
  Claim C5, as amended. The composed transform with scale (1,1,1), rotation (90,0,0)
  degrees and translation (0,0,0) maps the unit vector along +Y to the unit vector along
  +Z, as a direction and as a point.
\<close>

theorem rotate_x_90_maps_Y_to_plus_Z:
  "transform_direction (modelView (Vec3 1 1 1) 90 0 0 (Vec3 0 0 0)) (Vec3 0 1 0) = Vec3 0 0 1
   \<and> transform_point (modelView (Vec3 1 1 1) 90 0 0 (Vec3 0 0 0)) (Vec3 0 1 0) = Vec3 0 0 1"
  by (simp add: modelView_rotate_x_90 transform_direction_def transform_point_def)

text \<open>
  Claim C5 as stated fails: the image of the unit vector along +Y is not the unit vector
  along -Z.
\<close>

theorem rotate_x_90_not_minus_Z:
  "transform_direction (modelView (Vec3 1 1 1) 90 0 0 (Vec3 0 0 0)) (Vec3 0 1 0) \<noteq> Vec3 0 0 (- 1)
   \<and> transform_point (modelView (Vec3 1 1 1) 90 0 0 (Vec3 0 0 0)) (Vec3 0 1 0) \<noteq> Vec3 0 0 (- 1)"
  by (simp add: modelView_rotate_x_90 transform_direction_def transform_point_def)

section \<open>The bottle\<close>

lemma steps_append:
  "steps (fs @ gs) st = (case steps fs st of Inl e \<Rightarrow> Inl e | Inr st' \<Rightarrow> steps gs st')"
  by (induction fs arbitrary: st) (auto split: sum.splits)

lemma FindTextureSlot_loop_no_fault:
  "nat (m_loadedTextures st) \<le> length (m_textureIDs st) \<Longrightarrow>
   \<exists>slot. FindTextureSlot_loop st t index bFound textureSlot = Inr slot"
proof (induction st t index bFound textureSlot rule: FindTextureSlot_loop.induct)
  case (1 st t index bFound textureSlot)
  show ?case
  proof (cases "int index < m_loadedTextures st \<and> bFound = False")
    case True
    then have inb: "index < length (m_textureIDs st)" using "1.prems" by linarith
    show ?thesis
    proof (cases "tex_tag (m_textureIDs st ! index) = t")
      case hit: True
      then show ?thesis
        using True inb
        by (subst FindTextureSlot_loop.simps) (simp add: FindTextureSlot_loop_found)
    next
      case miss: False
      from "1.IH"(2)[OF True inb miss "1.prems"] obtain slot where
        "FindTextureSlot_loop st t (index + 1) bFound textureSlot = Inr slot" by blast
      then show ?thesis
        using True inb miss by (subst FindTextureSlot_loop.simps) simp
    qed
  next
    case False
    then show ?thesis by (subst FindTextureSlot_loop.simps) auto
  qed
qed

lemma quiet_SetTextureUVScale: "quiet (SetTextureUVScale u v)"
  by (auto simp add: quiet_def ready_def SetTextureUVScale_def setValue_def current_model_def
      uniform_value_def g_ModelName_def)

lemma quiet_SetShaderColor: "quiet (SetShaderColor r g b a)"
  by (auto simp add: quiet_def ready_def SetShaderColor_def setValue_def current_model_def
      uniform_value_def g_ModelName_def g_UseTextureName_def g_ColorValueName_def)

lemma quiet_SetShaderTexture: "quiet (SetShaderTexture t)"
proof (unfold quiet_def, intro allI impI)
  fix st assume r: "ready st"
  then obtain sh where sh: "m_pShaderManager st = Some sh" by (auto simp add: ready_def)
  let ?st1 = "st\<lparr>m_pShaderManager := Some ((g_UseTextureName, UInt 1) # sh)\<rparr>"
  have "nat (m_loadedTextures ?st1) \<le> length (m_textureIDs ?st1)"
    using r by (simp add: ready_def)
  from FindTextureSlot_loop_no_fault[OF this] obtain slot where
    "FindTextureSlot t ?st1 = Inr slot" unfolding FindTextureSlot_def by blast
  then have "SetShaderTexture t st =
      Inr (st\<lparr>m_pShaderManager := Some ((g_TextureValueName, USampler2D slot)
        # (g_UseTextureName, UInt 1) # sh)\<rparr>)"
    using sh by (simp add: SetShaderTexture_def setValue_def)
  then show "\<exists>st'. SetShaderTexture t st = Inr st' \<and> ready st'
      \<and> current_model st' = current_model st \<and> drawn st' = drawn st"
    using r sh
    by (simp add: ready_def current_model_def uniform_value_def g_ModelName_def
        g_UseTextureName_def g_TextureValueName_def)
qed

lemma quiet_SetShaderMaterial: "quiet (SetShaderMaterial t)"
proof (unfold quiet_def, intro allI impI)
  fix st assume r: "ready st"
  then obtain sh where sh: "m_pShaderManager st = Some sh" by (auto simp add: ready_def)
  show "\<exists>st'. SetShaderMaterial t st = Inr st' \<and> ready st'
      \<and> current_model st' = current_model st \<and> drawn st' = drawn st"
  proof (cases "m_objectMaterials st = []")
    case True
    then show ?thesis using r by (simp add: SetShaderMaterial_def)
  next
    case False
    obtain m where "FindMaterial t None st = (True, m)"
      using False by (simp add: FindMaterial_def)
    then show ?thesis
      using r sh False
      by (simp add: SetShaderMaterial_def setValue_def ready_def current_model_def
          uniform_value_def g_ModelName_def)
  qed
qed

lemma steps_quiet:
  "list_all quiet fs \<Longrightarrow> ready st \<Longrightarrow>
   \<exists>st'. steps fs st = Inr st' \<and> ready st' \<and> current_model st' = current_model st
     \<and> drawn st' = drawn st"
proof (induction fs arbitrary: st)
  case Nil
  then show ?case by simp
next
  case (Cons f fs)
  from Cons.prems have "quiet f" and rest: "list_all quiet fs" by simp_all
  with Cons.prems(2) obtain st1 where
    f: "f st = Inr st1" and r1: "ready st1"
    and m1: "current_model st1 = current_model st" and d1: "drawn st1 = drawn st"
    unfolding quiet_def by blast
  from Cons.IH[OF rest r1] obtain st' where
    "steps fs st1 = Inr st'" "ready st'" "current_model st' = current_model st1"
    "drawn st' = drawn st1" by blast
  with f m1 d1 show ?case by simp
qed

lemma SetTransformations_ready:
  "ready st \<Longrightarrow>
   \<exists>st'. SetTransformations s rx ry rz p st = Inr st' \<and> ready st'
     \<and> current_model st' = Some (UMat4 (modelView s rx ry rz p)) \<and> drawn st' = drawn st"
  by (auto simp add: ready_def SetTransformations_def setValue_def current_model_def
      uniform_value_def)

text \<open>One primitive: set the transform, set the shading, draw.\<close>

lemma primitive_block:
  assumes q: "list_all quiet fs" and r: "ready st"
  shows "\<exists>st'. steps (SetTransformations s rx ry rz p # fs @ [DrawMesh m]) st = Inr st'
     \<and> ready st' \<and> drawn st' = (m, Some (UMat4 (modelView s rx ry rz p))) # drawn st"
proof -
  from SetTransformations_ready[OF r] obtain st1 where
    t: "SetTransformations s rx ry rz p st = Inr st1" and r1: "ready st1"
    and m1: "current_model st1 = Some (UMat4 (modelView s rx ry rz p))"
    and d1: "drawn st1 = drawn st" by blast
  from steps_quiet[OF q r1] obtain st2 where
    s2: "steps fs st1 = Inr st2" and r2: "ready st2"
    and m2: "current_model st2 = current_model st1" and d2: "drawn st2 = drawn st1" by blast
  have "steps (SetTransformations s rx ry rz p # fs @ [DrawMesh m]) st =
      Inr (st2\<lparr>drawn := (m, current_model st2) # drawn st2\<rparr>)"
    using t s2 by (simp add: steps_append DrawMesh_def)
  moreover have "ready (st2\<lparr>drawn := (m, current_model st2) # drawn st2\<rparr>)"
    using r2 by (simp add: ready_def)
  ultimately show ?thesis using m1 m2 d1 d2 by simp
qed

lemma modelView_unrotated:
  "modelView (Vec3 a b c) 0 0 0 (Vec3 x y z) =
     Mat4 (Vec4 a 0 0 0) (Vec4 0 b 0 0) (Vec4 0 0 c 0) (Vec4 x y z 1)"
  by (simp add: modelView_def glm_scale_def glm_rotate_def glm_translate_def glm_radians_def
      glm_normalize_def mat4_identity_def Let_def)

lemma primitive_of_unrotated:
  "primitive_of (m, Some (UMat4 (modelView (Vec3 a b c) 0 0 0 (Vec3 x y z)))) =
     Some (Vec3 a b c, Vec3 x y z)"
  by (simp add: modelView_unrotated)

lemma CreateBottle1_blocks:
  "CreateBottle1 hs1x hs1y hs1z hs1 tex =
     steps
       ((SetTransformations (Vec3 (hs1 * 0.7) (hs1 * 2.8) (hs1 * 0.7)) 0 0 0
           (Vec3 (0 + hs1x) (hs1 * (0.2 + hs1y)) (0 + hs1z))
          # [SetTextureUVScale 50 50, SetShaderTexture tex] @ [DrawMesh CylinderMesh])
        @ (SetTransformations (Vec3 (hs1 * 0.8) (hs1 * 3.0) (hs1 * 0.8)) 0 0 0
           (Vec3 (0 + hs1x) (hs1 * (0 + hs1y)) (0 + hs1z))
          # [SetShaderColor 0.7 0.7 0.8 0.3, SetShaderMaterial ''glass''] @ [DrawMesh CylinderMesh])
        @ (SetTransformations (Vec3 (hs1 * 0.8) (hs1 * 1.0) (hs1 * 0.8)) 0 0 0
           (Vec3 (0 + hs1x) (hs1 * (3.0 + hs1y)) (0 + hs1z))
          # [SetShaderColor 0.7 0.7 0.8 0.3, SetShaderMaterial ''glass'']
            @ [DrawMesh TaperedCylinderMesh])
        @ (SetTransformations (Vec3 (hs1 * 0.5) (hs1 * 0.7) (hs1 * 0.5)) 0 0 0
           (Vec3 (0 + hs1x) (hs1 * (4.8 + hs1y)) (0 + hs1z))
          # [SetTextureUVScale 1 1, SetShaderTexture ''lid'', SetShaderMaterial ''plastic'']
            @ [DrawMesh CylinderMesh])
        @ (SetTransformations (Vec3 (hs1 * 0.4) (hs1 * 1.0) (hs1 * 0.4)) 0 0 0
           (Vec3 (0 + hs1x) (hs1 * (4.0 + hs1y)) (0 + hs1z))
          # [SetShaderColor 0.7 0.7 0.8 0.3, SetShaderMaterial ''glass''] @ [DrawMesh CylinderMesh]))"
  unfolding CreateBottle1_def by simp

lemma CreateBottle1_drawn:
  assumes r: "ready st"
  shows "\<exists>st'. CreateBottle1 x y z s tex st = Inr st' \<and> ready st'
     \<and> drawn st' =
         [(CylinderMesh, Some (UMat4 (modelView (Vec3 (s * 0.4) (s * 1.0) (s * 0.4)) 0 0 0
             (Vec3 (0 + x) (s * (4.0 + y)) (0 + z))))),
          (CylinderMesh, Some (UMat4 (modelView (Vec3 (s * 0.5) (s * 0.7) (s * 0.5)) 0 0 0
             (Vec3 (0 + x) (s * (4.8 + y)) (0 + z))))),
          (TaperedCylinderMesh, Some (UMat4 (modelView (Vec3 (s * 0.8) (s * 1.0) (s * 0.8)) 0 0 0
             (Vec3 (0 + x) (s * (3.0 + y)) (0 + z))))),
          (CylinderMesh, Some (UMat4 (modelView (Vec3 (s * 0.8) (s * 3.0) (s * 0.8)) 0 0 0
             (Vec3 (0 + x) (s * (0 + y)) (0 + z))))),
          (CylinderMesh, Some (UMat4 (modelView (Vec3 (s * 0.7) (s * 2.8) (s * 0.7)) 0 0 0
             (Vec3 (0 + x) (s * (0.2 + y)) (0 + z)))))] @ drawn st"
proof -
  note q = quiet_SetTextureUVScale quiet_SetShaderColor quiet_SetShaderTexture
    quiet_SetShaderMaterial
  define sauce where "sauce =
    SetTransformations (Vec3 (s * 0.7) (s * 2.8) (s * 0.7)) 0 0 0
        (Vec3 (0 + x) (s * (0.2 + y)) (0 + z))
      # [SetTextureUVScale 50 50, SetShaderTexture tex] @ [DrawMesh CylinderMesh]"
  define base where "base =
    SetTransformations (Vec3 (s * 0.8) (s * 3.0) (s * 0.8)) 0 0 0
        (Vec3 (0 + x) (s * (0 + y)) (0 + z))
      # [SetShaderColor 0.7 0.7 0.8 0.3, SetShaderMaterial ''glass''] @ [DrawMesh CylinderMesh]"
  define neck where "neck =
    SetTransformations (Vec3 (s * 0.8) (s * 1.0) (s * 0.8)) 0 0 0
        (Vec3 (0 + x) (s * (3.0 + y)) (0 + z))
      # [SetShaderColor 0.7 0.7 0.8 0.3, SetShaderMaterial ''glass'']
        @ [DrawMesh TaperedCylinderMesh]"
  define lid where "lid =
    SetTransformations (Vec3 (s * 0.5) (s * 0.7) (s * 0.5)) 0 0 0
        (Vec3 (0 + x) (s * (4.8 + y)) (0 + z))
      # [SetTextureUVScale 1 1, SetShaderTexture ''lid'', SetShaderMaterial ''plastic'']
        @ [DrawMesh CylinderMesh]"
  define top where "top =
    SetTransformations (Vec3 (s * 0.4) (s * 1.0) (s * 0.4)) 0 0 0
        (Vec3 (0 + x) (s * (4.0 + y)) (0 + z))
      # [SetShaderColor 0.7 0.7 0.8 0.3, SetShaderMaterial ''glass''] @ [DrawMesh CylinderMesh]"
  have whole: "CreateBottle1 x y z s tex = steps (sauce @ base @ neck @ lid @ top)"
    unfolding CreateBottle1_blocks sauce_def base_def neck_def lid_def top_def ..
  have q1: "list_all quiet [SetTextureUVScale 50 50, SetShaderTexture tex]"
    by (simp add: q)
  have q2: "list_all quiet [SetShaderColor 0.7 0.7 0.8 0.3, SetShaderMaterial ''glass'']"
    by (simp add: q)
  have q4: "list_all quiet
      [SetTextureUVScale 1 1, SetShaderTexture ''lid'', SetShaderMaterial ''plastic'']"
    by (simp add: q)
  from primitive_block[OF q1 r] obtain st1 where
    b1: "steps sauce st = Inr st1" and r1: "ready st1"
    and d1: "drawn st1 = (CylinderMesh, Some (UMat4 (modelView (Vec3 (s * 0.7) (s * 2.8) (s * 0.7))
        0 0 0 (Vec3 (0 + x) (s * (0.2 + y)) (0 + z))))) # drawn st"
    unfolding sauce_def by blast
  from primitive_block[OF q2 r1] obtain st2 where
    b2: "steps base st1 = Inr st2" and r2: "ready st2"
    and d2: "drawn st2 = (CylinderMesh, Some (UMat4 (modelView (Vec3 (s * 0.8) (s * 3.0) (s * 0.8))
        0 0 0 (Vec3 (0 + x) (s * (0 + y)) (0 + z))))) # drawn st1"
    unfolding base_def by blast
  from primitive_block[OF q2 r2] obtain st3 where
    b3: "steps neck st2 = Inr st3" and r3: "ready st3"
    and d3: "drawn st3 = (TaperedCylinderMesh, Some (UMat4 (modelView
        (Vec3 (s * 0.8) (s * 1.0) (s * 0.8)) 0 0 0 (Vec3 (0 + x) (s * (3.0 + y)) (0 + z)))))
        # drawn st2"
    unfolding neck_def by blast
  from primitive_block[OF q4 r3] obtain st4 where
    b4: "steps lid st3 = Inr st4" and r4: "ready st4"
    and d4: "drawn st4 = (CylinderMesh, Some (UMat4 (modelView (Vec3 (s * 0.5) (s * 0.7) (s * 0.5))
        0 0 0 (Vec3 (0 + x) (s * (4.8 + y)) (0 + z))))) # drawn st3"
    unfolding lid_def by blast
  from primitive_block[OF q2 r4] obtain st5 where
    b5: "steps top st4 = Inr st5" and r5: "ready st5"
    and d5: "drawn st5 = (CylinderMesh, Some (UMat4 (modelView (Vec3 (s * 0.4) (s * 1.0) (s * 0.4))
        0 0 0 (Vec3 (0 + x) (s * (4.0 + y)) (0 + z))))) # drawn st4"
    unfolding top_def by blast
  have "CreateBottle1 x y z s tex st = Inr st5"
    by (simp add: whole steps_append b1 b2 b3 b4 b5)
  moreover have "drawn st5 =
         [(CylinderMesh, Some (UMat4 (modelView (Vec3 (s * 0.4) (s * 1.0) (s * 0.4)) 0 0 0
             (Vec3 (0 + x) (s * (4.0 + y)) (0 + z))))),
          (CylinderMesh, Some (UMat4 (modelView (Vec3 (s * 0.5) (s * 0.7) (s * 0.5)) 0 0 0
             (Vec3 (0 + x) (s * (4.8 + y)) (0 + z))))),
          (TaperedCylinderMesh, Some (UMat4 (modelView (Vec3 (s * 0.8) (s * 1.0) (s * 0.8)) 0 0 0
             (Vec3 (0 + x) (s * (3.0 + y)) (0 + z))))),
          (CylinderMesh, Some (UMat4 (modelView (Vec3 (s * 0.8) (s * 3.0) (s * 0.8)) 0 0 0
             (Vec3 (0 + x) (s * (0 + y)) (0 + z))))),
          (CylinderMesh, Some (UMat4 (modelView (Vec3 (s * 0.7) (s * 2.8) (s * 0.7)) 0 0 0
             (Vec3 (0 + x) (s * (0.2 + y)) (0 + z)))))] @ drawn st"
    by (simp add: d5 d4 d3 d2 d1)
  ultimately show ?thesis using r5 by blast
qed

lemma CreateBottle1_primitives:
  assumes r: "ready st"
  shows "\<exists>st'. CreateBottle1 x y z s tex st = Inr st'
     \<and> new_primitives st st' =
         [Some (Vec3 (s * 0.7) (s * 2.8) (s * 0.7), Vec3 x (s * (0.2 + y)) z),
          Some (Vec3 (s * 0.8) (s * 3.0) (s * 0.8), Vec3 x (s * y) z),
          Some (Vec3 (s * 0.8) s (s * 0.8), Vec3 x (s * (3.0 + y)) z),
          Some (Vec3 (s * 0.5) (s * 0.7) (s * 0.5), Vec3 x (s * (4.8 + y)) z),
          Some (Vec3 (s * 0.4) s (s * 0.4), Vec3 x (s * (4.0 + y)) z)]"
proof -
  from CreateBottle1_drawn[OF r, of x y z s tex] obtain st' where
    c: "CreateBottle1 x y z s tex st = Inr st'"
    and d: "drawn st' =
         [(CylinderMesh, Some (UMat4 (modelView (Vec3 (s * 0.4) (s * 1.0) (s * 0.4)) 0 0 0
             (Vec3 (0 + x) (s * (4.0 + y)) (0 + z))))),
          (CylinderMesh, Some (UMat4 (modelView (Vec3 (s * 0.5) (s * 0.7) (s * 0.5)) 0 0 0
             (Vec3 (0 + x) (s * (4.8 + y)) (0 + z))))),
          (TaperedCylinderMesh, Some (UMat4 (modelView (Vec3 (s * 0.8) (s * 1.0) (s * 0.8)) 0 0 0
             (Vec3 (0 + x) (s * (3.0 + y)) (0 + z))))),
          (CylinderMesh, Some (UMat4 (modelView (Vec3 (s * 0.8) (s * 3.0) (s * 0.8)) 0 0 0
             (Vec3 (0 + x) (s * (0 + y)) (0 + z))))),
          (CylinderMesh, Some (UMat4 (modelView (Vec3 (s * 0.7) (s * 2.8) (s * 0.7)) 0 0 0
             (Vec3 (0 + x) (s * (0.2 + y)) (0 + z)))))] @ drawn st"
    by blast
  have "new_primitives st st' =
         [Some (Vec3 (s * 0.7) (s * 2.8) (s * 0.7), Vec3 x (s * (0.2 + y)) z),
          Some (Vec3 (s * 0.8) (s * 3.0) (s * 0.8), Vec3 x (s * y) z),
          Some (Vec3 (s * 0.8) s (s * 0.8), Vec3 x (s * (3.0 + y)) z),
          Some (Vec3 (s * 0.5) (s * 0.7) (s * 0.5), Vec3 x (s * (4.8 + y)) z),
          Some (Vec3 (s * 0.4) s (s * 0.4), Vec3 x (s * (4.0 + y)) z)]"
    unfolding new_primitives_def d by (simp add: modelView_unrotated)
  with c show ?thesis by blast
qed


text \<open>
  What the two builds have in common, in exact arithmetic, for every offset (x, y, z) and
  every factor \<open>s\<close>: both draw five primitives; each scale vector of the \<open>2s\<close> build is 2
  times the corresponding one of the \<open>s\<close> build; every position has the x and z
  components of the offset. The y component of a position is \<open>s * (c + y)\<close> for a
  constant \<open>c\<close> of the primitive, so that relative to the offset it is not 2 times the
  corresponding one but exceeds that by \<open>y\<close>.
\<close>

lemma CreateBottle1_two_builds:
  assumes "ready st"
  shows "\<exists>st1 st2 ps1 ps2.
     CreateBottle1 x y z s tex st = Inr st1 \<and> CreateBottle1 x y z (2 * s) tex st = Inr st2
     \<and> new_primitives st st1 = map Some ps1 \<and> new_primitives st st2 = map Some ps2
     \<and> length ps1 = 5
     \<and> list_all2 (\<lambda>(scale1, position1) (scale2, position2).
           scale2 = vec3_times scale1 2
           \<and> vx position1 = x \<and> vx position2 = x
           \<and> vz position1 = z \<and> vz position2 = z
           \<and> vy position2 - y = 2 * (vy position1 - y) + y) ps1 ps2"
proof -
  from CreateBottle1_primitives[OF assms, of x y z s tex] obtain st1 where
    c1: "CreateBottle1 x y z s tex st = Inr st1"
    and p1: "new_primitives st st1 =
         [Some (Vec3 (s * 0.7) (s * 2.8) (s * 0.7), Vec3 x (s * (0.2 + y)) z),
          Some (Vec3 (s * 0.8) (s * 3.0) (s * 0.8), Vec3 x (s * y) z),
          Some (Vec3 (s * 0.8) s (s * 0.8), Vec3 x (s * (3.0 + y)) z),
          Some (Vec3 (s * 0.5) (s * 0.7) (s * 0.5), Vec3 x (s * (4.8 + y)) z),
          Some (Vec3 (s * 0.4) s (s * 0.4), Vec3 x (s * (4.0 + y)) z)]"
    by blast
  from CreateBottle1_primitives[OF assms, of x y z "2 * s" tex] obtain st2 where
    c2: "CreateBottle1 x y z (2 * s) tex st = Inr st2"
    and p2: "new_primitives st st2 =
         [Some (Vec3 (2 * s * 0.7) (2 * s * 2.8) (2 * s * 0.7), Vec3 x (2 * s * (0.2 + y)) z),
          Some (Vec3 (2 * s * 0.8) (2 * s * 3.0) (2 * s * 0.8), Vec3 x (2 * s * y) z),
          Some (Vec3 (2 * s * 0.8) (2 * s) (2 * s * 0.8), Vec3 x (2 * s * (3.0 + y)) z),
          Some (Vec3 (2 * s * 0.5) (2 * s * 0.7) (2 * s * 0.5), Vec3 x (2 * s * (4.8 + y)) z),
          Some (Vec3 (2 * s * 0.4) (2 * s) (2 * s * 0.4), Vec3 x (2 * s * (4.0 + y)) z)]"
    by blast
  let ?ps1 = "[(Vec3 (s * 0.7) (s * 2.8) (s * 0.7), Vec3 x (s * (0.2 + y)) z),
          (Vec3 (s * 0.8) (s * 3.0) (s * 0.8), Vec3 x (s * y) z),
          (Vec3 (s * 0.8) s (s * 0.8), Vec3 x (s * (3.0 + y)) z),
          (Vec3 (s * 0.5) (s * 0.7) (s * 0.5), Vec3 x (s * (4.8 + y)) z),
          (Vec3 (s * 0.4) s (s * 0.4), Vec3 x (s * (4.0 + y)) z)]"
  let ?ps2 = "[(Vec3 (2 * s * 0.7) (2 * s * 2.8) (2 * s * 0.7), Vec3 x (2 * s * (0.2 + y)) z),
          (Vec3 (2 * s * 0.8) (2 * s * 3.0) (2 * s * 0.8), Vec3 x (2 * s * y) z),
          (Vec3 (2 * s * 0.8) (2 * s) (2 * s * 0.8), Vec3 x (2 * s * (3.0 + y)) z),
          (Vec3 (2 * s * 0.5) (2 * s * 0.7) (2 * s * 0.5), Vec3 x (2 * s * (4.8 + y)) z),
          (Vec3 (2 * s * 0.4) (2 * s) (2 * s * 0.4), Vec3 x (2 * s * (4.0 + y)) z)]"
  have f1: "new_primitives st st1 = map Some ?ps1" using p1 by simp
  have f2: "new_primitives st st2 = map Some ?ps2" using p2 by simp
  have f3: "length ?ps1 = 5" by simp
  have f4: "list_all2 (\<lambda>(scale1, position1) (scale2, position2).
           scale2 = vec3_times scale1 2
           \<and> vx position1 = x \<and> vx position2 = x
           \<and> vz position1 = z \<and> vz position2 = z
           \<and> vy position2 - y = 2 * (vy position1 - y) + y) ?ps1 ?ps2"
    by (simp add: algebra_simps)
  show ?thesis
    apply (rule exI[of _ st1])
    apply (rule exI[of _ st2])
    apply (rule exI[of _ "?ps1"])
    apply (rule exI[of _ "?ps2"])
    apply (intro conjI)
         apply (rule c1)
        apply (rule c2)
       apply (rule f1)
      apply (rule f2)
     apply (rule f3)
    apply (rule f4)
    done
qed


end
